theory Spec2Isabelle
  imports Main
begin

chapter \<open>The embedding\<close>

section \<open>Pagination renderers\<close>

text \<open>
  The renderers build an HTML string by appending fragments. A fragment is modelled by
  the control it displays: the Previous and Next buttons carry their \<open>disabled\<close>
  attribute and the page their \<open>onclick\<close> passes on, a numbered button carries its
  \<open>active\<close> class and its page number.
\<close>

datatype control =
    PrevButton bool int
  | PageButton bool int
  | Ellipsis
  | NextButton bool int

text \<open>
  The shared renderer of the common admin utilities:
  \<^verbatim>\<open>for (let i = 1; i <= totalPages; i++) {
    if (i === 1 || i === totalPages || (i >= currentPage - 2 && i <= currentPage + 2)) {
        html += `<button class="${i === currentPage ? 'active' : ''}" onclick="goToPage(${i})">${i}</button>`;
    } else if (i === currentPage - 3 || i === currentPage + 3) {
        html += `<span>...</span>`;
    }
  }\<close>
\<close>

function page_loop :: "int \<Rightarrow> int \<Rightarrow> int \<Rightarrow> control list \<Rightarrow> control list" where
  "page_loop i currentPage totalPages html =
     (if i \<le> totalPages then
        page_loop (i + 1) currentPage totalPages
          (if i = 1 \<or> i = totalPages \<or> (i \<ge> currentPage - 2 \<and> i \<le> currentPage + 2)
           then html @ [PageButton (i = currentPage) i]
           else if i = currentPage - 3 \<or> i = currentPage + 3
           then html @ [Ellipsis]
           else html)
      else html)"
  by pat_completeness auto
termination
  by (relation "measure (\<lambda>(i, c, t, h). nat (t + 1 - i))") auto

declare page_loop.simps [simp del]

definition pagination_html :: "int \<Rightarrow> int \<Rightarrow> control list" where
  "pagination_html currentPage totalPages =
     (let html = [];
          html = html @ [PrevButton (currentPage = 1) (currentPage - 1)];
          html = page_loop 1 currentPage totalPages html;
          html = html @ [NextButton (currentPage = totalPages) (currentPage + 1)]
      in html)"

text \<open>
  \<open>renderPagination(containerId, currentPage, totalPages, onPageChange)\<close> returns
  early when the container element is missing; otherwise the container's inner HTML
  becomes the string built above.
\<close>

definition renderPagination :: "bool \<Rightarrow> int \<Rightarrow> int \<Rightarrow> control list option" where
  "renderPagination container currentPage totalPages =
     (if \<not> container then None else Some (pagination_html currentPage totalPages))"

text \<open>
  The super-admin colleges table has a renderer of its own, over the module variable
  \<open>currentPage\<close>:
  \<^verbatim>\<open>for (let i = 1; i <= totalPages; i++) {
    html += `<button class="${i === currentPage ? 'active' : ''}" onclick="goToPage(${i})">${i}</button>`;
  }\<close>
\<close>

function superadmin_page_loop :: "int \<Rightarrow> int \<Rightarrow> int \<Rightarrow> control list \<Rightarrow> control list" where
  "superadmin_page_loop i currentPage totalPages html =
     (if i \<le> totalPages then
        superadmin_page_loop (i + 1) currentPage totalPages (html @ [PageButton (i = currentPage) i])
      else html)"
  by pat_completeness auto
termination
  by (relation "measure (\<lambda>(i, c, t, h). nat (t + 1 - i))") auto

declare superadmin_page_loop.simps [simp del]

definition superadmin_renderPagination :: "bool \<Rightarrow> int \<Rightarrow> int \<Rightarrow> control list option" where
  "superadmin_renderPagination pagination currentPage totalPages =
     (if \<not> pagination then None
      else Some (superadmin_page_loop 1 currentPage totalPages []))"

text \<open>What a reader of the rendered markup sees of the page numbers: the numbered
  buttons, in their order.\<close>

fun page_numbers :: "control list \<Rightarrow> int list" where
  "page_numbers [] = []"
| "page_numbers (PageButton a n # cs) = n # page_numbers cs"
| "page_numbers (c # cs) = page_numbers cs"

definition shown :: "int \<Rightarrow> int \<Rightarrow> int \<Rightarrow> bool" where
  "shown currentPage totalPages i =
     (i = 1 \<or> i = totalPages \<or> (currentPage - 2 \<le> i \<and> i \<le> currentPage + 2))"

text \<open>What one round of the shared renderer's loop appends for page \<open>i\<close>.\<close>

definition item :: "int \<Rightarrow> int \<Rightarrow> int \<Rightarrow> control list" where
  "item c t i =
     (if shown c t i then [PageButton (i = c) i]
      else if i = c - 3 \<or> i = c + 3 then [Ellipsis] else [])"

text \<open>
  The layout the specification describes, from its words: the shown pages in ascending
  order, and one ellipsis wherever two neighbouring shown pages are not consecutive,
  that is one per gap, however many pages the gap skips.
\<close>

fun with_gaps :: "int \<Rightarrow> int list \<Rightarrow> control list" where
  "with_gaps currentPage [] = []"
| "with_gaps currentPage [a] = [PageButton (a = currentPage) a]"
| "with_gaps currentPage (a # b # rest) =
     PageButton (a = currentPage) a #
       (if b = a + 1 then [] else [Ellipsis]) @ with_gaps currentPage (b # rest)"

definition spec_layout :: "int \<Rightarrow> int \<Rightarrow> control list" where
  "spec_layout currentPage totalPages =
     with_gaps currentPage (filter (shown currentPage totalPages) [1..totalPages])"

subsection \<open>Page navigation handlers\<close>

text \<open>
  The handler that \<open>renderPagination\<close> installs as \<open>window.goToPage\<close> closes over
  \<open>totalPages\<close> and the caller's \<open>onPageChange\<close>:
  \<^verbatim>\<open>window.goToPage = (page) => {
    if (page >= 1 && page <= totalPages) { onPageChange(page); }
  };\<close>
  The callback acts on the state of the calling module, of type \<open>'s\<close> here.
\<close>

definition goToPage :: "int \<Rightarrow> (int \<Rightarrow> 's \<Rightarrow> 's) \<Rightarrow> int \<Rightarrow> 's \<Rightarrow> 's" where
  "goToPage totalPages onPageChange page s =
     (if page \<ge> 1 \<and> page \<le> totalPages then onPageChange page s else s)"

text \<open>
  The announcements module is the caller in the sources: its callback stores the page in
  the module variable \<open>currentPage\<close> and calls \<open>loadAnnouncements()\<close>, which requests
  that page. The state is the stored page and the log of requested pages.
\<close>

record announcements_pager =
  ann_currentPage :: int
  ann_requests :: "int list"

definition loadAnnouncements :: "announcements_pager \<Rightarrow> announcements_pager" where
  "loadAnnouncements s = s\<lparr>ann_requests := ann_requests s @ [ann_currentPage s]\<rparr>"

definition announcements_onPageChange :: "int \<Rightarrow> announcements_pager \<Rightarrow> announcements_pager" where
  "announcements_onPageChange page s = loadAnnouncements (s\<lparr>ann_currentPage := page\<rparr>)"

text \<open>
  The super-admin detail modal keeps \<open>detailModalData = {type, currentPage, totalPages,
  searchTerm, allData}\<close>; \<open>allData\<close> is never read or written after its declaration and
  is left out. \<open>type\<close> is \<open>null\<close> or the card type.
  \<^verbatim>\<open>function goToDetailPage(page) {
    if (page < 1 || page > detailModalData.totalPages) return;
    detailModalData.currentPage = page;
    loadDetailData(detailModalData.type, page, detailModalData.searchTerm);
  }\<close>
  A handler returns the new state and the loader calls it made.
\<close>

record detailModalData =
  detail_type :: "string option"
  detail_currentPage :: int
  detail_totalPages :: int
  detail_searchTerm :: string

datatype loader_call =
    LoadDetailData "string option" int string
  | LoadCollegesCards int string

definition goToDetailPage :: "detailModalData \<Rightarrow> int \<Rightarrow> detailModalData \<times> loader_call list" where
  "goToDetailPage d page =
     (if page < 1 \<or> page > detail_totalPages d then (d, [])
      else (d\<lparr>detail_currentPage := page\<rparr>,
            [LoadDetailData (detail_type d) page (detail_searchTerm d)]))"

text \<open>
  The colleges-cards modal keeps \<open>collegesCardsData = {currentPage, totalPages, searchTerm,
  colleges}\<close>; the list of colleges plays no role in navigation and is kept abstract.
\<close>

record 'c collegesCardsData =
  cards_currentPage :: int
  cards_totalPages :: int
  cards_searchTerm :: string
  cards_colleges :: "'c list"

definition goToCollegesCardsPage ::
  "'c collegesCardsData \<Rightarrow> int \<Rightarrow> 'c collegesCardsData \<times> loader_call list" where
  "goToCollegesCardsPage d page =
     (if page < 1 \<or> page > cards_totalPages d then (d, [])
      else (d\<lparr>cards_currentPage := page\<rparr>,
            [LoadCollegesCards page (cards_searchTerm d)]))"

section \<open>Strings\<close>

text \<open>
  JavaScript strings are modelled as \<^typ>\<open>string\<close>. The string methods the sources call
  are written out: \<open>s.startsWith(p)\<close>, \<open>s.endsWith(p)\<close>, \<open>s.includes(p)\<close> and
  \<open>s.split(c)\<close> for a one-character separator.
\<close>

fun startsWith :: "string \<Rightarrow> string \<Rightarrow> bool" where
  "startsWith s [] = True"
| "startsWith [] (p # ps) = False"
| "startsWith (c # cs) (p # ps) = (c = p \<and> startsWith cs ps)"

definition endsWith :: "string \<Rightarrow> string \<Rightarrow> bool" where
  "endsWith s p = startsWith (rev s) (rev p)"

fun str_includes :: "string \<Rightarrow> string \<Rightarrow> bool" where
  "str_includes [] p = (p = [])"
| "str_includes (c # cs) p = (startsWith (c # cs) p \<or> str_includes cs p)"

fun split_on :: "char \<Rightarrow> string \<Rightarrow> string list" where
  "split_on c [] = [[]]"
| "split_on c (x # xs) =
     (if x = c then [] # split_on c xs
      else (case split_on c xs of [] \<Rightarrow> [[x]] | p # ps \<Rightarrow> (x # p) # ps))"

section \<open>Endpoint construction\<close>

text \<open>
  \<open>window.COLLEGE_SLUG\<close> is set by the page template or left undefined;
  \<open>getCollegeSlug()\<close> returns \<open>window.COLLEGE_SLUG || ''\<close>.
\<close>

definition getCollegeSlug :: "string option \<Rightarrow> string" where
  "getCollegeSlug COLLEGE_SLUG = (case COLLEGE_SLUG of None \<Rightarrow> [] | Some s \<Rightarrow> s)"

text \<open>
  \<open>buildApiEndpoint\<close> of the common admin utilities. The split of a string that
  contains \<open>?\<close> has at least two parts (lemma \<open>split_on_two\<close>), so the last case of
  the \<open>case\<close> below is never taken.
  \<^verbatim>\<open>let cleanEndpoint = endpoint.startsWith('/') ? endpoint.slice(1) : endpoint;
  let baseEndpoint = cleanEndpoint;
  let queryString = '';
  if (cleanEndpoint.includes('?')) {
      const parts = cleanEndpoint.split('?');
      baseEndpoint = parts[0];
      queryString = '?' + parts[1];
  }
  if (!baseEndpoint.endsWith('/')) { baseEndpoint = baseEndpoint + '/'; }
  const finalEndpoint = baseEndpoint + queryString;
  if (collegeSlug) { return `/api/${collegeSlug}/${finalEndpoint}`; }
  return `${API_BASE_URL}/${finalEndpoint}`;\<close>
\<close>

definition API_BASE_URL :: string where
  "API_BASE_URL = ''/api''"

definition buildApiEndpoint :: "string option \<Rightarrow> string \<Rightarrow> string" where
  "buildApiEndpoint COLLEGE_SLUG endpoint =
     (let collegeSlug = getCollegeSlug COLLEGE_SLUG;
          cleanEndpoint = (if startsWith endpoint ''/'' then drop 1 endpoint else endpoint);
          (baseEndpoint, queryString) =
            (if str_includes cleanEndpoint ''?'' then
               (case split_on CHR ''?'' cleanEndpoint of
                  p0 # p1 # ps \<Rightarrow> (p0, ''?'' @ p1)
                | _ \<Rightarrow> (cleanEndpoint, []))
             else (cleanEndpoint, []));
          baseEndpoint = (if \<not> endsWith baseEndpoint ''/'' then baseEndpoint @ ''/'' else baseEndpoint);
          finalEndpoint = baseEndpoint @ queryString
      in if collegeSlug \<noteq> [] then ''/api/'' @ collegeSlug @ ''/'' @ finalEndpoint
         else API_BASE_URL @ ''/'' @ finalEndpoint)"

section \<open>API clients\<close>

text \<open>
  A parsed JSON value. The numeric payload matters only through its truthiness, so
  numbers are kept as integers.
\<close>

datatype json =
    JNull
  | JBool bool
  | JNum int
  | JStr string
  | JArr "json list"
  | JObj "(string \<times> json) list"

fun truthy :: "json \<Rightarrow> bool" where
  "truthy JNull = False"
| "truthy (JBool b) = b"
| "truthy (JNum n) = (n \<noteq> 0)"
| "truthy (JStr s) = (s \<noteq> [])"
| "truthy (JArr xs) = True"
| "truthy (JObj kvs) = True"

text \<open>Reading a property of a value that is not \<open>null\<close>: \<open>None\<close> is \<open>undefined\<close>. Of
  a repeated key of an object the last binding counts.\<close>

fun js_prop :: "json \<Rightarrow> string \<Rightarrow> json option" where
  "js_prop (JObj kvs) k = map_of (rev kvs) k"
| "js_prop j k = None"

text \<open>
  The errors the clients throw. Each constructor stands for one \<open>new Error(...)\<close> of
  the sources, with the parts of its message, or for an exception of the platform:
  \<open>TypeError\<close> for a property read on \<open>null\<close>, \<open>SyntaxError\<close> for \<open>response.json()\<close>
  on a body that does not parse, \<open>NetworkError\<close> for a rejected \<open>fetch\<close>.
\<close>

datatype thrown =
    HttpError nat string
  | InvalidJsonResponse string
  | EmptyResponse string
  | ApiError json
  | ApiRequestFailed
  | SlugNotFound
  | TypeError
  | SyntaxError
  | NetworkError string

text \<open>\<open>new Error(data.error || data.message || 'API request failed')\<close>\<close>

definition api_error :: "json \<Rightarrow> thrown" where
  "api_error data =
     (if data = JNull then TypeError
      else case js_prop data ''error'' of
        Some v \<Rightarrow>
          if truthy v then ApiError v
          else (case js_prop data ''message'' of
                  Some w \<Rightarrow> if truthy w then ApiError w else ApiRequestFailed
                | None \<Rightarrow> ApiRequestFailed)
      | None \<Rightarrow>
          (case js_prop data ''message'' of
             Some w \<Rightarrow> if truthy w then ApiError w else ApiRequestFailed
           | None \<Rightarrow> ApiRequestFailed))"

record response =
  status :: nat
  statusText :: string
  contentType :: "string option"
  body :: string

definition response_ok :: "response \<Rightarrow> bool" where
  "response_ok r = (200 \<le> status r \<and> status r \<le> 299)"

text \<open>\<open>!contentType || !contentType.includes('application/json')\<close>\<close>

definition not_json :: "response \<Rightarrow> bool" where
  "not_json r =
     (case contentType r of
        None \<Rightarrow> True
      | Some ct \<Rightarrow> ct = [] \<or> \<not> str_includes ct ''application/json'')"

datatype fetched = Rejected string | Response response

datatype returned = Null | Success | Data json

datatype outcome = Return returned | Throw thrown

text \<open>
  What a call does besides returning: the requests it sends, an assignment to
  \<open>window.location.href\<close>, the toasts it shows (type, and the error whose message is
  shown), and how often it hands a response body to the JSON parser
  (\<open>response.json()\<close>, or \<open>JSON.parse\<close> of \<open>response.text()\<close>).
\<close>

record effects =
  fetches :: "string list"
  location :: "string option"
  toasts :: "(string \<times> thrown) list"
  json_parses :: nat

definition no_effects :: effects where
  "no_effects = \<lparr>fetches = [], location = None, toasts = [], json_parses = 0\<rparr>"

text \<open>
  The \<open>catch\<close> block shared by the clients:
  \<^verbatim>\<open>catch (error) {
    console.error('API Error:', error);
    showToast('error', error.message || 'An error occurred');
    throw error;
  }\<close>
\<close>

definition catch_toast :: "outcome \<times> effects \<Rightarrow> outcome \<times> effects" where
  "catch_toast res =
     (case res of
        (Throw e, fx) \<Rightarrow> (Throw e, fx\<lparr>toasts := toasts fx @ [(''error'', e)]\<rparr>)
      | (Return v, fx) \<Rightarrow> (Return v, fx))"

text \<open>
  The JSON parser of the platform is a parameter \<open>parse\<close>: \<open>None\<close> where
  \<open>JSON.parse\<close> throws. The server is a parameter \<open>net\<close>, from the requested URL to
  what \<open>fetch\<close> settles with.

  The client of the super-admin dashboard (\<open>API_BASE_URL = '/api/superadmin'\<close>):
  \<^verbatim>\<open>const apiEndpoint = endpoint.startsWith('/') ? endpoint : `/${endpoint}`;
  const response = await fetch(`${API_BASE_URL}${apiEndpoint}`, config);
  const contentType = response.headers.get('content-type');
  if (!contentType || !contentType.includes('application/json')) {
      if (!response.ok) { throw new Error(`HTTP ${response.status}: ${response.statusText}`); }
      return null;
  }
  const data = await response.json();
  if (!response.ok) {
      if (response.status === 401 || response.status === 403) {
          window.location.href = '/admin/login/';
          return null;
      }
      throw new Error(data.error || data.message || 'API request failed');
  }
  return data;\<close>
\<close>

definition json_response ::
  "(string \<Rightarrow> json option) \<Rightarrow> response \<Rightarrow> effects \<Rightarrow> outcome \<times> effects" where
  "json_response parse r fx =
     (if not_json r then
        (if \<not> response_ok r then (Throw (HttpError (status r) (statusText r)), fx)
         else (Return Null, fx))
      else
        (let fx = fx\<lparr>json_parses := json_parses fx + 1\<rparr> in
         case parse (body r) of
           None \<Rightarrow> (Throw SyntaxError, fx)
         | Some data \<Rightarrow>
             if \<not> response_ok r then
               (if status r = 401 \<or> status r = 403
                then (Return Null, fx\<lparr>location := Some ''/admin/login/''\<rparr>)
                else (Throw (api_error data), fx))
             else (Return (Data data), fx)))"

definition superadmin_apiCall ::
  "(string \<Rightarrow> json option) \<Rightarrow> (string \<Rightarrow> fetched) \<Rightarrow> string \<Rightarrow> effects \<Rightarrow> outcome \<times> effects" where
  "superadmin_apiCall parse net endpoint fx =
     catch_toast
       (let apiEndpoint = (if startsWith endpoint ''/'' then endpoint else ''/'' @ endpoint);
            url = ''/api/superadmin'' @ apiEndpoint;
            fx = fx\<lparr>fetches := fetches fx @ [url]\<rparr>
        in case net url of
             Rejected m \<Rightarrow> (Throw (NetworkError m), fx)
           | Response r \<Rightarrow> json_response parse r fx)"

text \<open>
  The client of the common admin utilities handles the response in the same way, and
  builds the URL with \<open>buildApiEndpoint\<close>.
\<close>

definition common_apiCall ::
  "(string \<Rightarrow> json option) \<Rightarrow> (string \<Rightarrow> fetched) \<Rightarrow> string option \<Rightarrow> string \<Rightarrow> effects
     \<Rightarrow> outcome \<times> effects" where
  "common_apiCall parse net COLLEGE_SLUG endpoint fx =
     catch_toast
       (let apiEndpoint = buildApiEndpoint COLLEGE_SLUG endpoint;
            fx = fx\<lparr>fetches := fetches fx @ [apiEndpoint]\<rparr>
        in case net apiEndpoint of
             Rejected m \<Rightarrow> (Throw (NetworkError m), fx)
           | Response r \<Rightarrow> json_response parse r fx)"

text \<open>
  The client of the college admin panel. Its \<open>buildApiEndpoint\<close> throws when the slug
  is missing and does not touch the endpoint otherwise:
  \<^verbatim>\<open>if (!collegeSlug) { throw new Error('College slug not found'); }
  return `/api/${collegeSlug}/${endpoint}`;\<close>
\<close>

definition college_buildApiEndpoint :: "string option \<Rightarrow> string \<Rightarrow> thrown + string" where
  "college_buildApiEndpoint COLLEGE_SLUG endpoint =
     (let collegeSlug = getCollegeSlug COLLEGE_SLUG
      in if collegeSlug = [] then Inl SlugNotFound
         else Inr (''/api/'' @ collegeSlug @ ''/'' @ endpoint))"

text \<open>
  \<^verbatim>\<open>const response = await fetch(buildApiEndpoint(endpoint), config);
  // Handle 204 No Content (DELETE operations)
  if (response.status === 204) { return { success: true }; }
  // Handle 401/403 before trying to parse JSON
  if (response.status === 401 || response.status === 403) {
      window.location.href = '/admin/login/';
      return null;
  }
  const contentType = response.headers.get('content-type');
  if (!contentType || !contentType.includes('application/json')) {
      if (!response.ok) { throw new Error(`HTTP ${response.status}: ${response.statusText}`); }
      return null;
  }
  let data;
  const text = await response.text();
  if (text) {
      try { data = JSON.parse(text); }
      catch (parseError) {
          if (response.ok) { return { success: true }; }
          throw new Error(`Invalid JSON response: ${response.statusText}`);
      }
  } else {
      if (response.ok) { return { success: true }; }
      throw new Error(`Empty response: ${response.statusText}`);
  }
  if (!response.ok) { throw new Error(data.error || data.message || 'API request failed'); }
  return data;\<close>
\<close>

definition college_response ::
  "(string \<Rightarrow> json option) \<Rightarrow> response \<Rightarrow> effects \<Rightarrow> outcome \<times> effects" where
  "college_response parse r fx =
     (if status r = 204 then (Return Success, fx)
      else if status r = 401 \<or> status r = 403
      then (Return Null, fx\<lparr>location := Some ''/admin/login/''\<rparr>)
      else if not_json r then
        (if \<not> response_ok r then (Throw (HttpError (status r) (statusText r)), fx)
         else (Return Null, fx))
      else if body r \<noteq> [] then
        (let fx = fx\<lparr>json_parses := json_parses fx + 1\<rparr> in
         case parse (body r) of
           None \<Rightarrow>
             if response_ok r then (Return Success, fx)
             else (Throw (InvalidJsonResponse (statusText r)), fx)
         | Some data \<Rightarrow>
             if \<not> response_ok r then (Throw (api_error data), fx)
             else (Return (Data data), fx))
      else
        (if response_ok r then (Return Success, fx)
         else (Throw (EmptyResponse (statusText r)), fx)))"

definition college_apiCall ::
  "(string \<Rightarrow> json option) \<Rightarrow> (string \<Rightarrow> fetched) \<Rightarrow> string option \<Rightarrow> string \<Rightarrow> effects
     \<Rightarrow> outcome \<times> effects" where
  "college_apiCall parse net COLLEGE_SLUG endpoint fx =
     catch_toast
       (case college_buildApiEndpoint COLLEGE_SLUG endpoint of
          Inl e \<Rightarrow> (Throw e, fx)
        | Inr url \<Rightarrow>
            (let fx = fx\<lparr>fetches := fetches fx @ [url]\<rparr>
             in case net url of
                  Rejected m \<Rightarrow> (Throw (NetworkError m), fx)
                | Response r \<Rightarrow> college_response parse r fx))"

text \<open>
  The endpoint the specification describes, from its words: \<open>/api/<tenant-slug>/<path>/\<close>
  with a trailing slash appended to the path when absent, and the part from \<open>?\<close> onward
  unchanged after it.
\<close>

definition normalised :: "string \<Rightarrow> string" where
  "normalised endpoint =
     (let path = takeWhile (\<lambda>c. c \<noteq> CHR ''?'') endpoint;
          query = dropWhile (\<lambda>c. c \<noteq> CHR ''?'') endpoint
      in (if path \<noteq> [] \<and> last path = CHR ''/'' then path else path @ ''/'') @ query)"

definition spec_endpoint :: "string \<Rightarrow> string \<Rightarrow> string" where
  "spec_endpoint slug endpoint = ''/api/'' @ slug @ ''/'' @ normalised endpoint"

section \<open>Form validation\<close>

text \<open>
  The text a user types is a JavaScript string, a sequence of UTF-16 code units; it is
  modelled as the list of its code units, so that the white space of the platform can be
  told apart. ASCII text is written with \<open>units\<close>.
\<close>

type_synonym ustring = "nat list"

definition units :: "string \<Rightarrow> ustring" where
  "units s = map of_char s"

text \<open>\<open>s.split(c)\<close> on code units, as \<open>split_on\<close> is on characters.\<close>

fun split_units :: "nat \<Rightarrow> ustring \<Rightarrow> ustring list" where
  "split_units c [] = [[]]"
| "split_units c (x # xs) =
     (if x = c then [] # split_units c xs
      else (case split_units c xs of [] \<Rightarrow> [[x]] | p # ps \<Rightarrow> (x # p) # ps))"

text \<open>
  \<open>s.trim()\<close> strips white space and line terminators at both ends, and the class
  \<open>\s\<close> of a regular expression matches the same code units: tab, line feed, vertical
  tab, form feed, carriage return, space, U+00A0, U+1680, U+2000 to U+200A, U+2028,
  U+2029, U+202F, U+205F, U+3000 and U+FEFF.
\<close>

definition is_space :: "nat \<Rightarrow> bool" where
  "is_space u =
     (u \<in> {0x09, 0x0A, 0x0B, 0x0C, 0x0D, 0x20, 0xA0, 0x1680, 0x2028, 0x2029, 0x202F, 0x205F,
            0x3000, 0xFEFF}
      \<or> (0x2000 \<le> u \<and> u \<le> 0x200A))"

definition trim :: "ustring \<Rightarrow> ustring" where
  "trim s = rev (dropWhile is_space (rev (dropWhile is_space s)))"

text \<open>
  \<^verbatim>\<open>function isValidEmail(email) { return /^[^\s@]+@[^\s@]+\.[^\s@]+$/.test(email); }\<close>
  The expression matches a string without white space that has exactly one \<open>@\<close>
  (code unit 64), something before it, and after it a dot (code unit 46) that is neither
  the first nor the last code unit of that part.
\<close>

definition isValidEmail :: "ustring \<Rightarrow> bool" where
  "isValidEmail email =
     (case split_units 64 email of
        [local, domain] \<Rightarrow>
          local \<noteq> [] \<and> list_all (\<lambda>u. \<not> is_space u) email
          \<and> 46 \<in> set (butlast (tl domain))
      | _ \<Rightarrow> False)"

text \<open>
  The part of the document the validators write to: the elements they look up by id,
  with their text, their \<open>display\<close> style and whether they carry the class
  \<open>error-message\<close>.
\<close>

record element =
  textContent :: string
  display :: string
  error_message :: bool

type_synonym dom = "string \<Rightarrow> element option"

text \<open>
  \<^verbatim>\<open>function showFieldError(fieldId, message) {
    const errorEl = document.getElementById(`error-${fieldId}`);
    if (errorEl) { errorEl.textContent = message; errorEl.style.display = 'block'; }
  }\<close>
\<close>

definition showFieldError :: "string \<Rightarrow> string \<Rightarrow> dom \<Rightarrow> dom" where
  "showFieldError fieldId message d =
     (case d (''error-'' @ fieldId) of
        None \<Rightarrow> d
      | Some errorEl \<Rightarrow>
          d(''error-'' @ fieldId \<mapsto> errorEl\<lparr>textContent := message, display := ''block''\<rparr>))"

text \<open>
  The super-admin dashboard clears the text of every \<open>.error-message\<close> element; the
  registration page also hides them.
  \<^verbatim>\<open>document.querySelectorAll('.error-message').forEach(el => { el.textContent = ''; });\<close>
\<close>

definition clearFormErrors :: "dom \<Rightarrow> dom" where
  "clearFormErrors d =
     (\<lambda>id. case d id of
              None \<Rightarrow> None
            | Some el \<Rightarrow> Some (if error_message el then el\<lparr>textContent := []\<rparr> else el))"


text \<open>
  One validation rule of the sources,
  \<^verbatim>\<open>if (<failed>) { showFieldError(<fieldId>, <message>); isValid = false; }\<close>
  acting on the pair of \<open>isValid\<close> and the document.
\<close>

definition check_field :: "bool \<Rightarrow> string \<Rightarrow> string \<Rightarrow> bool \<times> dom \<Rightarrow> bool \<times> dom" where
  "check_field failed fieldId message st =
     (if failed then (False, showFieldError fieldId message (snd st)) else st)"

subsection \<open>The college form of the super-admin dashboard\<close>

text \<open>The values \<open>handleCollegeSubmit\<close> reads from the inputs of the form.\<close>

record college_form =
  f_name :: ustring
  f_owner_name :: ustring
  f_owner_email :: ustring
  f_owner_phone :: ustring
  f_location :: ustring
  f_type :: ustring
  f_address :: ustring
  f_website :: ustring
  f_status :: ustring

text \<open>
  \<^verbatim>\<open>function validateCollegeForm(data) {
    let isValid = true;
    if (!data.name.trim()) { showFieldError('college-name', 'College name is required'); isValid = false; }
    if (!data.owner_name.trim()) { showFieldError('owner-name', 'Owner/Principal name is required'); isValid = false; }
    if (!data.owner_email.trim() || !isValidEmail(data.owner_email)) { showFieldError('owner-email', 'Valid email is required'); isValid = false; }
    if (!data.owner_phone.trim()) { showFieldError('owner-phone', 'Phone number is required'); isValid = false; }
    if (!data.location.trim()) { showFieldError('location', 'Location is required'); isValid = false; }
    if (!data.type) { showFieldError('college-type', 'College type is required'); isValid = false; }
    return isValid;
  }\<close>
\<close>

definition validateCollegeForm :: "college_form \<Rightarrow> dom \<Rightarrow> bool \<times> dom" where
  "validateCollegeForm data d =
     (check_field (f_type data = []) ''college-type'' ''College type is required''
      (check_field (trim (f_location data) = []) ''location'' ''Location is required''
      (check_field (trim (f_owner_phone data) = []) ''owner-phone'' ''Phone number is required''
      (check_field (trim (f_owner_email data) = [] \<or> \<not> isValidEmail (f_owner_email data))
         ''owner-email'' ''Valid email is required''
      (check_field (trim (f_owner_name data) = []) ''owner-name'' ''Owner/Principal name is required''
      (check_field (trim (f_name data) = []) ''college-name'' ''College name is required''
      (True, d)))))))"

text \<open>
  The dashboard page as the handlers of the college modal see it: the elements looked up
  by id, the modal's \<open>active\<close> class, the current values of the form's inputs and the
  values \<open>form.reset()\<close> restores, \<open>form.dataset.collegeId\<close>, the state of the submit
  button, and the calls made to the API client (method and endpoint).
\<close>

record dashboard =
  elements :: dom
  modal_active :: bool
  form_inputs :: college_form
  form_defaults :: college_form
  form_collegeId :: "string option"
  submit_disabled :: bool
  api_calls :: "(string \<times> string) list"

text \<open>
  \<open>handleCollegeSubmit\<close> up to the call of the API client; what follows the \<open>await\<close>
  runs only after that call.
  \<^verbatim>\<open>clearFormErrors();
  const formData = { name: document.getElementById('college-name').value, ... };
  if (!validateCollegeForm(formData)) { return; }
  btnText.style.display = 'none'; btnLoader.classList.remove('hidden'); submitBtn.disabled = true;
  const collegeId = form.dataset.collegeId;
  if (collegeId) { response = await apiCall(`/colleges/${collegeId}/`, { method: 'PUT', ... }); }
  else { response = await apiCall('/colleges/', { method: 'POST', ... }); }\<close>
\<close>

definition handleCollegeSubmit :: "dashboard \<Rightarrow> dashboard" where
  "handleCollegeSubmit p =
     (let p = p\<lparr>elements := clearFormErrors (elements p)\<rparr>;
          formData = form_inputs p;
          (isValid, d) = validateCollegeForm formData (elements p);
          p = p\<lparr>elements := d\<rparr>
      in if \<not> isValid then p
         else
           (let p = p\<lparr>submit_disabled := True\<rparr>
            in case form_collegeId p of
                 None \<Rightarrow> p\<lparr>api_calls := api_calls p @ [(''POST'', ''/colleges/'')]\<rparr>
               | Some collegeId \<Rightarrow>
                   if collegeId \<noteq> []
                   then p\<lparr>api_calls := api_calls p @ [(''PUT'', ''/colleges/'' @ collegeId @ ''/'')]\<rparr>
                   else p\<lparr>api_calls := api_calls p @ [(''POST'', ''/colleges/'')]\<rparr>))"

subsection \<open>The registration form\<close>

text \<open>
  The registration page collects the entries of \<open>new FormData(form)\<close> in an object;
  a field the form does not have is \<open>undefined\<close>. \<open>!v || !v.trim()\<close> holds of a
  field that is undefined, empty or white space only, \<open>!v\<close> of one that is undefined or
  empty.
\<close>

type_synonym form_data = "string \<Rightarrow> ustring option"

definition blank :: "form_data \<Rightarrow> string \<Rightarrow> bool" where
  "blank formData k = (case formData k of None \<Rightarrow> True | Some v \<Rightarrow> v = [] \<or> trim v = [])"






subsection \<open>The timetable form of the college admin panel\<close>




text \<open>
  Example pages for the evaluations below: a document with an (empty, hidden) error
  element under every id that starts with \<open>error-\<close>, the dashboard with its college form
  filled in except for the name, a registration form left empty, and a timetable form
  for a course-specific timetable with no course chosen.
\<close>

definition demo_elements :: dom where
  "demo_elements =
     (\<lambda>id. if startsWith id ''error-''
            then Some \<lparr>textContent = [], display = ''none'', error_message = True\<rparr>
            else None)"

definition demo_college_form :: college_form where
  "demo_college_form =
     \<lparr>f_name = [], f_owner_name = units ''Ann Lee'', f_owner_email = units ''ann@example.org'',
      f_owner_phone = units ''0700 000 000'', f_location = units ''Nairobi'',
      f_type = units ''TVET'', f_address = [], f_website = [], f_status = units ''pending''\<rparr>"

definition demo_dashboard :: dashboard where
  "demo_dashboard =
     \<lparr>elements = demo_elements, modal_active = True, form_inputs = demo_college_form,
      form_defaults = demo_college_form\<lparr>f_owner_name := [], f_owner_email := [],
        f_owner_phone := [], f_location := [], f_type := []\<rparr>,
      form_collegeId = None, submit_disabled = False, api_calls = []\<rparr>"



section \<open>Modals\<close>

text \<open>
  A form control has a current value and the value \<open>form.reset()\<close> restores, the one
  the markup gives it. A form of the shared modal helper has its controls and the
  elements inside it.
\<close>

record control_state =
  control_name :: string
  entered :: string
  initial :: string

record html_form =
  controls :: "control_state list"
  nodes :: "element list"

definition reset :: "html_form \<Rightarrow> html_form" where
  "reset form = form\<lparr>controls := map (\<lambda>c. c\<lparr>entered := initial c\<rparr>) (controls form)\<rparr>"

text \<open>
  The helpers of the common admin utilities:
  \<^verbatim>\<open>function closeModal(modalId) {
    const modal = document.getElementById(modalId);
    if (modal) {
        modal.classList.remove('active');
        const form = modal.querySelector('form');
        if (form) { form.reset(); clearFormErrors(form); }
    }
  }
  function clearFormErrors(form) {
    if (!form) return;
    form.querySelectorAll('.error-message').forEach(el => {
        el.textContent = ''; el.style.display = 'none';
    });
  }\<close>
\<close>

definition common_clearFormErrors :: "html_form \<Rightarrow> html_form" where
  "common_clearFormErrors form =
     form\<lparr>nodes := map (\<lambda>el. if error_message el
                                then el\<lparr>textContent := [], display := ''none''\<rparr> else el)
                       (nodes form)\<rparr>"

record modal =
  active :: bool
  modal_form :: "html_form option"

definition closeModal :: "string \<Rightarrow> (string \<Rightarrow> modal option) \<Rightarrow> (string \<Rightarrow> modal option)" where
  "closeModal modalId document =
     (case document modalId of
        None \<Rightarrow> document
      | Some m \<Rightarrow>
          document(modalId \<mapsto>
            (case modal_form m of
               None \<Rightarrow> m\<lparr>active := False\<rparr>
             | Some form \<Rightarrow>
                 m\<lparr>active := False, modal_form := Some (common_clearFormErrors (reset form))\<rparr>)))"

text \<open>
  The college modal of the super-admin dashboard. The record \<open>dashboard\<close> describes the
  dashboard page, which has the modal and its form; \<open>closeModal\<close> dereferences both
  without a test.
  \<^verbatim>\<open>function closeModal() {
    const modal = document.getElementById('college-modal');
    const form = document.getElementById('college-form');
    modal.classList.remove('active');
    form.reset();
    clearFormErrors();
  }\<close>
\<close>

definition superadmin_closeModal :: "dashboard \<Rightarrow> dashboard" where
  "superadmin_closeModal p =
     (let p = p\<lparr>modal_active := False\<rparr>;
          p = p\<lparr>form_inputs := form_defaults p\<rparr>;
          p = p\<lparr>elements := clearFormErrors (elements p)\<rparr>
      in p)"

text \<open>
  The detail modal: \<open>None\<close> when the page has no element \<open>detail-modal\<close>, otherwise
  whether it carries the class \<open>active\<close>.
  \<^verbatim>\<open>function closeDetailModal() {
    const modal = document.getElementById('detail-modal');
    if (modal) {
        modal.classList.remove('active');
        detailModalData.type = null;
        detailModalData.currentPage = 1;
        detailModalData.searchTerm = '';
    }
  }\<close>
\<close>

definition closeDetailModal ::
  "bool option \<Rightarrow> detailModalData \<Rightarrow> bool option \<times> detailModalData" where
  "closeDetailModal modal d =
     (case modal of
        None \<Rightarrow> (None, d)
      | Some a \<Rightarrow>
          (Some False,
           d\<lparr>detail_type := None, detail_currentPage := 1, detail_searchTerm := []\<rparr>))"

text \<open>
  The \<open>closeModal\<close> of the college admin panel resets the form and the id of the record
  being edited, \<open>form.dataset.editId\<close> (kept with the modal here), and touches no
  other element:
  \<^verbatim>\<open>function closeModal(modalId) {
    const modal = document.getElementById(modalId);
    if (modal) {
        modal.classList.remove('active');
        const form = modal.querySelector('form');
        if (form) { form.reset(); form.dataset.editId = ''; }
    }
  }\<close>
\<close>

record panel_modal =
  panel_active :: bool
  panel_form :: "html_form option"
  panel_editId :: "string option"

definition panel_closeModal ::
  "string \<Rightarrow> (string \<Rightarrow> panel_modal option) \<Rightarrow> (string \<Rightarrow> panel_modal option)" where
  "panel_closeModal modalId document =
     (case document modalId of
        None \<Rightarrow> document
      | Some m \<Rightarrow>
          document(modalId \<mapsto>
            (case panel_form m of
               None \<Rightarrow> m\<lparr>panel_active := False\<rparr>
             | Some form \<Rightarrow>
                 m\<lparr>panel_active := False, panel_form := Some (reset form),
                   panel_editId := Some []\<rparr>)))"

text \<open>
  The deny modal of the super-admin dashboard holds a form with the text area
  \<open>deny-reason\<close>. Its close and cancel buttons, and the submit handler of its form,
  only take the class \<open>active\<close> from the modal:
  \<^verbatim>\<open>if (denyClose) denyClose.addEventListener('click', () => denyModal.classList.remove('active'));
  if (denyCancel) denyCancel.addEventListener('click', () => denyModal.classList.remove('active'));
  function handleDenySubmit(e) {
    e.preventDefault();
    const reason = document.getElementById('deny-reason').value;
    showToast('info', 'Registration denied');
    document.getElementById('deny-modal').classList.remove('active');
  }\<close>
\<close>

record deny_modal =
  deny_active :: bool
  deny_reason :: control_state
  deny_toasts :: "(string \<times> string) list"

definition deny_dismiss :: "deny_modal \<Rightarrow> deny_modal" where
  "deny_dismiss m = m\<lparr>deny_active := False\<rparr>"

definition handleDenySubmit :: "deny_modal \<Rightarrow> deny_modal" where
  "handleDenySubmit m =
     (let m = m\<lparr>deny_toasts := deny_toasts m @ [(''info'', ''Registration denied'')]\<rparr>
      in m\<lparr>deny_active := False\<rparr>)"

section \<open>Debounced search\<close>

text \<open>
  Time is counted in milliseconds. A search box has one timer variable
  (\<open>searchTimeout\<close>, or \<open>timeout\<close> inside \<open>debounce\<close>): \<open>timer\<close> is the time at which
  the timer it names is due, or \<open>None\<close> once that timer has run or has been cleared.
  \<open>input_text\<close> is the value of the input element, and \<open>fetched\<close> lists the search
  terms of the fetches started so far.
\<close>

record search_box =
  timer :: "nat option"
  input_text :: string
  fetched :: "string list"









section \<open>The results fetcher\<close>

text \<open>
  The state the results fetcher of the college admin panel works on:
  \<open>isFetchingResults\<close>, the record \<open>state.results\<close>, whether the element
  \<open>results-tab-content\<close> exists and is active, the calls of \<open>apiCall\<close> that are awaited
  and have not settled, and the log of all calls made. A call is the triple of
  \<open>page\<close>, \<open>search\<close> and \<open>filters\<close>.
\<close>

record ('r, 'f) results_module =
  isFetchingResults :: bool
  results_loading :: bool
  results_data :: "'r list"
  results_currentPage :: int
  results_totalPages :: int
  tab_active :: bool
  awaited :: "(int \<times> string \<times> 'f) list"
  requested :: "(int \<times> string \<times> 'f) list"

text \<open>
  What the awaited \<open>apiCall\<close> settles with: an envelope that has a \<open>results\<close> key,
  with its \<open>results\<close>, \<open>page\<close> and \<open>total_pages\<close> (\<open>None\<close> for a missing or null
  entry) and whether \<open>renderResultsTable()\<close> then throws on these records (it reads
  fields of the records, which are opaque here); any other value, such as \<open>null\<close>; or
  an exception.
\<close>

datatype 'r settled =
    Envelope "'r list option" "int option" "int option" bool
  | NoEnvelope
  | Failed

text \<open>\<open>x || 1\<close> for a number that may be missing\<close>

definition or_one :: "int option \<Rightarrow> int" where
  "or_one x = (case x of None \<Rightarrow> 1 | Some n \<Rightarrow> if n = 0 then 1 else n)"

text \<open>
  \<open>fetchResults\<close> up to its \<open>await\<close>:
  \<^verbatim>\<open>const section = document.getElementById('results-tab-content');
  if (!section || !section.classList.contains('active')) { return; }
  if (isFetchingResults) { console.log('Results fetch already in progress, skipping...'); return; }
  isFetchingResults = true;
  state.results.loading = true;
  showLoadingState('results');
  try { ... const data = await apiCall(`results/?${params.toString()}`);\<close>
\<close>

definition fetchResults ::
  "int \<Rightarrow> string \<Rightarrow> 'f \<Rightarrow> ('r, 'f) results_module \<Rightarrow> ('r, 'f) results_module" where
  "fetchResults page search filters m =
     (if \<not> tab_active m then m
      else if isFetchingResults m then m
      else m\<lparr>isFetchingResults := True, results_loading := True,
             awaited := awaited m @ [(page, search, filters)],
             requested := requested m @ [(page, search, filters)]\<rparr>)"

text \<open>
  and from the \<open>await\<close> on, when the oldest awaited call settles:
  \<^verbatim>\<open>    state.results.loading = false;
      isFetchingResults = false;
      if (data && data.results !== undefined) {
          state.results.data = data.results || [];
          state.results.currentPage = data.page || 1;
          state.results.totalPages = data.total_pages || 1;
          renderResultsTable();
          renderResultsPagination();
      } else {
          state.results.data = []; state.results.currentPage = 1; state.results.totalPages = 1;
          renderResultsTable();
          renderResultsPagination();
      }
  } catch (error) {
      state.results.loading = false;
      isFetchingResults = false;
      state.results.data = []; state.results.currentPage = 1; state.results.totalPages = 1;
      renderResultsPagination();
  }\<close>
  An exception of \<open>renderResultsTable()\<close> in the \<open>try\<close> block is caught by the same
  \<open>catch\<close>, which resets the record; on an empty list the function reads no record.
  Without an awaited call there is nothing to resume.
\<close>

definition fetchResults_resume ::
  "'r settled \<Rightarrow> ('r, 'f) results_module \<Rightarrow> ('r, 'f) results_module" where
  "fetchResults_resume outcome m =
     (case awaited m of
        [] \<Rightarrow> m
      | call # calls \<Rightarrow>
          (let m = m\<lparr>awaited := calls, results_loading := False, isFetchingResults := False\<rparr>
           in case outcome of
                Envelope results page total_pages render_throws \<Rightarrow>
                  (let m = m\<lparr>results_data := (case results of None \<Rightarrow> [] | Some rs \<Rightarrow> rs),
                              results_currentPage := or_one page,
                              results_totalPages := or_one total_pages\<rparr>
                   in if render_throws \<and> results_data m \<noteq> []
                      then m\<lparr>results_loading := False, isFetchingResults := False,
                             results_data := [], results_currentPage := 1,
                             results_totalPages := 1\<rparr>
                      else m)
              | NoEnvelope \<Rightarrow>
                  m\<lparr>results_data := [], results_currentPage := 1, results_totalPages := 1\<rparr>
              | Failed \<Rightarrow>
                  m\<lparr>results_data := [], results_currentPage := 1, results_totalPages := 1\<rparr>))"

text \<open>
  What can happen on the page, in any order: a call of \<open>fetchResults\<close>, the settling
  of the awaited call, and the user switching the results tab on or off.
\<close>

datatype ('r, 'f) happening =
    Call int string 'f
  | Settle "'r settled"
  | SwitchTab bool

fun step :: "('r, 'f) results_module \<Rightarrow> ('r, 'f) happening \<Rightarrow> ('r, 'f) results_module" where
  "step m (Call page search filters) = fetchResults page search filters m"
| "step m (Settle outcome) = fetchResults_resume outcome m"
| "step m (SwitchTab on) = m\<lparr>tab_active := on\<rparr>"

definition module_loaded :: "bool \<Rightarrow> ('r, 'f) results_module" where
  "module_loaded on =
     \<lparr>isFetchingResults = False, results_loading = False, results_data = [],
      results_currentPage = 1, results_totalPages = 1, tab_active = on,
      awaited = [], requested = []\<rparr>"

text \<open>An example for the evaluations below: an open modal whose form holds typed text and
  a visible error.\<close>

definition demo_form :: html_form where
  "demo_form =
     \<lparr>controls = [\<lparr>control_name = ''title'', entered = ''Exam dates'', initial = []\<rparr>,
                  \<lparr>control_name = ''priority'', entered = ''high'', initial = ''normal''\<rparr>],
      nodes = [\<lparr>textContent = ''Title is required'', display = ''block'', error_message = True\<rparr>]\<rparr>"

definition demo_document :: "string \<Rightarrow> modal option" where
  "demo_document = [''announcement-modal'' \<mapsto> \<lparr>active = True, modal_form = Some demo_form\<rparr>]"

definition demo_panel_document :: "string \<Rightarrow> panel_modal option" where
  "demo_panel_document =
     [''student-modal'' \<mapsto>
        \<lparr>panel_active = True, panel_form = Some demo_form, panel_editId = Some ''12''\<rparr>]"

definition demo_deny_modal :: deny_modal where
  "demo_deny_modal =
     \<lparr>deny_active = True,
      deny_reason = \<lparr>control_name = ''deny-reason'', entered = ''Duplicate entry'', initial = []\<rparr>,
      deny_toasts = []\<rparr>"

text \<open>The flag is set exactly while a call is awaited, and at most one call is.\<close>

definition in_step :: "('r, 'f) results_module \<Rightarrow> bool" where
  "in_step m = (length (awaited m) \<le> 1 \<and> (isFetchingResults m \<longleftrightarrow> awaited m \<noteq> []))"

chapter \<open>Verification\<close>

section \<open>Pagination\<close>

lemma page_loop_concat:
  "page_loop i c t html = html @ concat (map (item c t) [i..t])"
proof (induction i c t html rule: page_loop.induct)
  case (1 i c t html)
  show ?case
  proof (cases "i \<le> t")
    case True
    then have up: "[i..t] = i # [i + 1..t]"
      by (simp add: upto_rec1)
    show ?thesis
      using True "1.IH" [OF True]
      by (subst page_loop.simps) (simp add: up item_def [of c t i] shown_def)
  next
    case False
    then show ?thesis
      by (subst page_loop.simps) simp
  qed
qed

lemma superadmin_page_loop_map:
  "superadmin_page_loop i c t html = html @ map (\<lambda>k. PageButton (k = c) k) [i..t]"
proof (induction i c t html rule: superadmin_page_loop.induct)
  case (1 i c t html)
  show ?case
  proof (cases "i \<le> t")
    case True
    then have up: "[i..t] = i # [i + 1..t]"
      by (simp add: upto_rec1)
    show ?thesis
      using True "1.IH" [OF True]
      by (subst superadmin_page_loop.simps) (simp add: up)
  next
    case False
    then show ?thesis
      by (subst superadmin_page_loop.simps) simp
  qed
qed

lemma page_numbers_append: "page_numbers (xs @ ys) = page_numbers xs @ page_numbers ys"
  by (induction xs rule: page_numbers.induct) simp_all

lemma page_numbers_items:
  "page_numbers (concat (map (item c t) xs)) = filter (shown c t) xs"
  by (induction xs) (simp_all add: page_numbers_append item_def)

lemma page_numbers_buttons: "page_numbers (map (\<lambda>k. PageButton (k = c) k) xs) = xs"
  by (induction xs) simp_all

lemma with_gaps_Cons:
  "xs \<noteq> [] \<Longrightarrow> with_gaps p (a # xs) =
     PageButton (a = p) a # (if hd xs = a + 1 then [] else [Ellipsis]) @ with_gaps p xs"
  by (cases xs) simp_all

lemma filter_shown_nonempty:
  "i \<le> N \<Longrightarrow> filter (shown p N) [i..N] \<noteq> []"
  by (auto simp: filter_empty_conv shown_def)

lemma hd_filter_upto:
  assumes "i \<le> N"
  shows "hd (filter (shown p N) [i..N]) = i \<longleftrightarrow> shown p N i"
proof -
  have up: "[i..N] = i # [i + 1..N]" using assms by (simp add: upto_rec1)
  show ?thesis
  proof (cases "shown p N i")
    case True
    then show ?thesis using up by simp
  next
    case False
    have ne: "filter (shown p N) [i + 1..N] \<noteq> []"
      using False assms by (auto simp: filter_empty_conv shown_def)
    have "hd (filter (shown p N) [i + 1..N]) \<in> set (filter (shown p N) [i + 1..N])"
      using ne by (rule hd_in_set)
    then have "i + 1 \<le> hd (filter (shown p N) [i + 1..N])" by simp
    then show ?thesis using False up by simp
  qed
qed

lemma layout_inv:
  assumes "1 \<le> p" "p \<le> N"
  shows "1 \<le> i \<Longrightarrow> i \<le> N + 1 \<Longrightarrow>
    concat (map (item p N) [i..N]) =
      (if i \<le> N \<and> \<not> shown p N i \<and> (i \<le> p - 3 \<or> i = p + 3) then [Ellipsis] else [])
      @ with_gaps p (filter (shown p N) [i..N])"
proof (induction "nat (N + 1 - i)" arbitrary: i)
  case 0
  then have "i = N + 1" by simp
  then show ?case by simp
next
  case (Suc n)
  then have le: "i \<le> N" by linarith
  then have up: "[i..N] = i # [i + 1..N]" by (simp add: upto_rec1)
  have IH: "concat (map (item p N) [i + 1..N]) =
      (if i + 1 \<le> N \<and> \<not> shown p N (i + 1) \<and> (i + 1 \<le> p - 3 \<or> i + 1 = p + 3) then [Ellipsis] else [])
      @ with_gaps p (filter (shown p N) [i + 1..N])"
    using Suc.hyps(1) [of "i + 1"] Suc.hyps(2) Suc.prems le by simp
  show ?case
  proof (cases "i = N")
    case True
    then show ?thesis by (simp add: item_def shown_def)
  next
    case False
    then have lt: "i + 1 \<le> N" using le by simp
    have ne: "filter (shown p N) [i + 1..N] \<noteq> []"
      using lt by (rule filter_shown_nonempty)
    have hd: "hd (filter (shown p N) [i + 1..N]) = i + 1 \<longleftrightarrow> shown p N (i + 1)"
      using lt by (rule hd_filter_upto)
    show ?thesis
    proof (cases "shown p N i")
      case True
      have "concat (map (item p N) [i..N]) = PageButton (i = p) i # concat (map (item p N) [i + 1..N])"
        using True by (simp add: up item_def [of p N i])
      moreover have "with_gaps p (filter (shown p N) [i..N]) =
          PageButton (i = p) i # (if shown p N (i + 1) then [] else [Ellipsis])
            @ with_gaps p (filter (shown p N) [i + 1..N])"
        using True ne hd by (simp add: up with_gaps_Cons)
      moreover have "\<not> shown p N (i + 1) \<Longrightarrow> i + 1 \<le> p - 3 \<or> i + 1 = p + 3"
        using True False Suc.prems assms by (auto simp: shown_def)
      ultimately show ?thesis using IH True lt by auto
    next
      case nshown: False
      have f: "filter (shown p N) [i..N] = filter (shown p N) [i + 1..N]"
        using nshown by (simp add: up)
      show ?thesis
        using nshown IH lt assms Suc.prems unfolding f up
        by (auto simp: item_def shown_def)
    qed
  qed
qed

lemma page_loop_layout:
  assumes "1 \<le> p" "p \<le> N"
  shows "page_loop 1 p N [] = with_gaps p (filter (shown p N) [1..N])"
  using layout_inv [OF assms, of 1] assms by (simp add: page_loop_concat shown_def)

lemma page_numbers_with_gaps: "page_numbers (with_gaps p xs) = xs"
  by (induction p xs rule: with_gaps.induct) (simp_all add: page_numbers_append)

lemma pagination_html_layout:
  assumes "1 \<le> p" "p \<le> N"
  shows "pagination_html p N =
    PrevButton (p = 1) (p - 1) # spec_layout p N @ [NextButton (p = N) (p + 1)]"
proof -
  have "page_loop 1 p N [PrevButton (p = 1) (p - 1)] =
      [PrevButton (p = 1) (p - 1)] @ page_loop 1 p N []"
    by (simp add: page_loop_concat)
  then show ?thesis
    using page_loop_layout [OF assms]
    by (simp add: pagination_html_def spec_layout_def)
qed

lemma page_numbers_pagination_html:
  "page_numbers (pagination_html p N) = filter (shown p N) [1..N]"
  by (simp add: pagination_html_def page_loop_concat page_numbers_append page_numbers_items)

lemma shown_count_le_7: "length (filter (shown p N) [1..N]) \<le> 7"
proof -
  have sub: "set (filter (shown p N) [1..N]) \<subseteq> {1, N} \<union> {p - 2..p + 2}"
    by (auto simp: shown_def)
  have "length (filter (shown p N) [1..N]) = card (set (filter (shown p N) [1..N]))"
    by (rule distinct_card [symmetric]) simp
  also have "\<dots> \<le> card ({1, N} \<union> {p - 2..p + 2})"
    using sub by (intro card_mono) auto
  also have "\<dots> \<le> card {1, N} + card {p - 2..p + 2}"
    by (rule card_Un_le)
  also have "\<dots> \<le> 2 + 5"
    by (intro add_mono) (auto simp: card_insert_if)
  finally show ?thesis by simp
qed

lemma shown_count_le_total: "0 \<le> N \<Longrightarrow> int (length (filter (shown p N) [1..N])) \<le> N"
proof -
  assume "0 \<le> N"
  have "length (filter (shown p N) [1..N]) \<le> length [1..N]"
    by (rule length_filter_le)
  then show ?thesis using \<open>0 \<le> N\<close> by simp
qed

lemma shown_count_inner:
  assumes "4 \<le> p" "p + 3 \<le> N"
  shows "filter (shown p N) [1..N] = [1, p - 2, p - 1, p, p + 1, p + 2, N]"
proof -
  have split: "[1..N] = [1] @ [2..p - 3] @ [p - 2..p + 2] @ [p + 3..N - 1] @ [N]"
  proof -
    have "[1..N] = 1 # [2..N]" using assms by (simp add: upto_rec1)
    moreover have "[2..N] = [2..p - 3] @ [p - 2..N]"
      using assms upto_split1 [of 2 "p - 2" N] by simp
    moreover have "[p - 2..N] = [p - 2..p + 2] @ [p + 3..N]"
      using assms upto_split1 [of "p - 2" "p + 3" N] by (simp add: add.commute)
    moreover have "[p + 3..N] = [p + 3..N - 1] @ [N]"
      using assms by (simp add: upto_rec2)
    ultimately show ?thesis by simp
  qed
  have left: "filter (shown p N) [2..p - 3] = []"
    using assms by (auto simp: filter_empty_conv shown_def)
  have right: "filter (shown p N) [p + 3..N - 1] = []"
    using assms by (auto simp: filter_empty_conv shown_def)
  have mid: "filter (shown p N) [p - 2..p + 2] = [p - 2..p + 2]"
    by (auto simp: filter_id_conv shown_def)
  have five: "[p - 2..p + 2] = [p - 2, p - 1, p, p + 1, p + 2]"
    by (simp add: upto_rec1)
  show ?thesis
    unfolding split filter_append left right mid five
    by (simp add: shown_def)
qed

text \<open>
  C1 (amended). With \<open>total_pages = N \<ge> 1\<close> and a current page \<open>1 \<le> p \<le> N\<close>, the
  shared Pagination Renderer renders at most \<open>min(N, 7)\<close> numbered page buttons, exactly
  seven when \<open>4 \<le> p \<le> N - 3\<close>, and the buttons for page 1 and page \<open>N\<close> are always
  among them; the super-admin colleges renderer renders one numbered button for every
  page \<open>1..N\<close>.
\<close>

theorem pagination_button_count:
  assumes "1 \<le> p" and "p \<le> N"
  shows "(renderPagination True p N = Some (pagination_html p N)
          \<and> int (length (page_numbers (pagination_html p N))) \<le> min N 7
          \<and> (if 4 \<le> p \<and> p + 3 \<le> N then length (page_numbers (pagination_html p N)) = 7
               else True)
          \<and> 1 \<in> set (page_numbers (pagination_html p N))
          \<and> N \<in> set (page_numbers (pagination_html p N)))
       \<and> map_option page_numbers (superadmin_renderPagination True p N) = Some [1..N]"
proof -
  have N0: "0 \<le> N" using assms by simp
  have count7: "int (length (filter (shown p N) [1..N])) \<le> 7"
    using shown_count_le_7 [of p N] by simp
  have countN: "int (length (filter (shown p N) [1..N])) \<le> N"
    using N0 by (rule shown_count_le_total)
  have inner: "4 \<le> p \<and> p + 3 \<le> N \<Longrightarrow> length (filter (shown p N) [1..N]) = 7"
    using shown_count_inner [of p N] by simp
  have first: "1 \<in> set (filter (shown p N) [1..N])"
    using assms by (simp add: shown_def)
  have last: "N \<in> set (filter (shown p N) [1..N])"
    using assms by (simp add: shown_def)
  have super: "map_option page_numbers (superadmin_renderPagination True p N) = Some [1..N]"
    by (simp add: superadmin_renderPagination_def superadmin_page_loop_map page_numbers_buttons)
  show ?thesis
    using count7 countN inner first last super
    by (simp add: renderPagination_def page_numbers_pagination_html)
qed

theorem pagination_button_count_witness:
  "(1::int) \<le> 5 \<and> (5::int) \<le> 10
   \<and> map_option page_numbers (renderPagination True 5 10) = Some [1, 3, 4, 5, 6, 7, 10]
   \<and> int (length (page_numbers (pagination_html 5 10))) \<le> min 10 7
   \<and> length (page_numbers (pagination_html 5 10)) = 7
   \<and> map_option page_numbers (superadmin_renderPagination True 5 10) = Some [1..10]"
proof -
  have nums: "page_numbers (pagination_html 5 10) = [1, 3, 4, 5, 6, 7, 10]"
    by code_simp
  show ?thesis
    using pagination_button_count [of 5 10] nums by simp
qed

theorem pagination_button_count_counterexample:
  "map_option page_numbers (renderPagination True 1 10) = Some [1, 2, 3, 10]
   \<and> int (length [1, 2, 3, 10 :: int]) \<noteq> min 10 7
   \<and> map_option page_numbers (superadmin_renderPagination True 1 10)
       = Some [1, 2, 3, 4, 5, 6, 7, 8, 9, 10]
   \<and> int (length [1, 2, 3, 4, 5, 6, 7, 8, 9, 10 :: int]) \<noteq> min 10 7"
  by code_simp

text \<open>
  C3 (amended). For \<open>1 \<le> currentPage \<le> totalPages\<close> the shared Pagination Renderer
  emits a Previous button, disabled iff \<open>currentPage = 1\<close>, then numbered buttons exactly
  for page 1, page \<open>totalPages\<close> and every page within two of \<open>currentPage\<close>, in ascending
  order with exactly one ellipsis per skipped gap, then a Next button, disabled iff
  \<open>currentPage = totalPages\<close>. The super-admin colleges renderer emits a numbered button
  for every page \<open>1..totalPages\<close> and neither ellipses nor Previous and Next buttons.
\<close>

theorem pagination_layout:
  assumes "1 \<le> currentPage" and "currentPage \<le> totalPages"
  shows "renderPagination True currentPage totalPages =
           Some (PrevButton (currentPage = 1) (currentPage - 1)
                 # spec_layout currentPage totalPages
                 @ [NextButton (currentPage = totalPages) (currentPage + 1)])
       \<and> page_numbers (spec_layout currentPage totalPages) =
           filter (\<lambda>i. i = 1 \<or> i = totalPages \<or> (currentPage - 2 \<le> i \<and> i \<le> currentPage + 2))
             [1..totalPages]
       \<and> superadmin_renderPagination True currentPage totalPages =
           Some (map (\<lambda>i. PageButton (i = currentPage) i) [1..totalPages])"
proof -
  have shared: "pagination_html currentPage totalPages =
      PrevButton (currentPage = 1) (currentPage - 1)
      # spec_layout currentPage totalPages
      @ [NextButton (currentPage = totalPages) (currentPage + 1)]"
    using assms by (rule pagination_html_layout)
  have window: "shown currentPage totalPages =
      (\<lambda>i. i = 1 \<or> i = totalPages \<or> (currentPage - 2 \<le> i \<and> i \<le> currentPage + 2))"
    by (rule ext) (simp add: shown_def)
  have nums: "page_numbers (spec_layout currentPage totalPages) =
      filter (shown currentPage totalPages) [1..totalPages]"
    by (simp add: spec_layout_def page_numbers_with_gaps)
  have super: "superadmin_page_loop 1 currentPage totalPages [] =
      map (\<lambda>i. PageButton (i = currentPage) i) [1..totalPages]"
    by (simp add: superadmin_page_loop_map)
  show ?thesis
    using shared nums super unfolding window
    by (simp add: renderPagination_def superadmin_renderPagination_def)
qed

theorem pagination_layout_witness:
  "(1::int) \<le> 2 \<and> (2::int) \<le> 3
   \<and> renderPagination True 2 3 =
       Some [PrevButton False 1, PageButton False 1, PageButton True 2, PageButton False 3,
             NextButton False 3]
   \<and> renderPagination True 6 12 =
       Some [PrevButton False 5, PageButton False 1, Ellipsis, PageButton False 4,
             PageButton False 5, PageButton True 6, PageButton False 7, PageButton False 8,
             Ellipsis, PageButton False 12, NextButton False 7]"
proof -
  have a: "spec_layout 2 3 = [PageButton False 1, PageButton True 2, PageButton False 3]"
    by code_simp
  have b: "spec_layout 6 12 = [PageButton False 1, Ellipsis, PageButton False 4,
             PageButton False 5, PageButton True 6, PageButton False 7, PageButton False 8,
             Ellipsis, PageButton False 12]"
    by code_simp
  show ?thesis
    using pagination_layout [of 2 3] pagination_layout [of 6 12] a b by simp
qed

theorem pagination_layout_counterexample:
  "superadmin_renderPagination True 1 10 =
     Some [PageButton True 1, PageButton False 2, PageButton False 3, PageButton False 4,
           PageButton False 5, PageButton False 6, PageButton False 7, PageButton False 8,
           PageButton False 9, PageButton False 10]
   \<and> filter (shown 1 10) [1..10] = [1, 2, 3, 10]
   \<and> spec_layout 1 10 =
       [PageButton True 1, PageButton False 2, PageButton False 3, Ellipsis, PageButton False 10]"
  by code_simp

text \<open>
  C10. A navigation request for a page outside \<open>1..totalPages\<close> leaves the stored
  current page (indeed the whole state) unchanged and calls no loader, in the detail
  modal, in the colleges-cards modal and in the shared \<open>goToPage\<close>; so a stored page
  within \<open>1..totalPages\<close> stays within it under any navigation request.
\<close>

theorem navigation_guard:
  "(page < 1 \<or> page > detail_totalPages d \<longrightarrow> goToDetailPage d page = (d, []))
   \<and> (page < 1 \<or> page > cards_totalPages c \<longrightarrow> goToCollegesCardsPage c page = (c, []))
   \<and> (page < 1 \<or> page > totalPages \<longrightarrow> goToPage totalPages onPageChange page s = s)
   \<and> (page < 1 \<or> page > totalPages \<longrightarrow>
        goToPage totalPages announcements_onPageChange page a = a)
   \<and> (1 \<le> detail_currentPage d \<and> detail_currentPage d \<le> detail_totalPages d \<longrightarrow>
        1 \<le> detail_currentPage (fst (goToDetailPage d page))
        \<and> detail_currentPage (fst (goToDetailPage d page))
            \<le> detail_totalPages (fst (goToDetailPage d page)))
   \<and> (1 \<le> cards_currentPage c \<and> cards_currentPage c \<le> cards_totalPages c \<longrightarrow>
        1 \<le> cards_currentPage (fst (goToCollegesCardsPage c page))
        \<and> cards_currentPage (fst (goToCollegesCardsPage c page))
            \<le> cards_totalPages (fst (goToCollegesCardsPage c page)))
   \<and> (1 \<le> ann_currentPage a \<and> ann_currentPage a \<le> totalPages \<longrightarrow>
        1 \<le> ann_currentPage (goToPage totalPages announcements_onPageChange page a)
        \<and> ann_currentPage (goToPage totalPages announcements_onPageChange page a)
            \<le> totalPages)"
proof -
  have detail: "page < 1 \<or> page > detail_totalPages d \<Longrightarrow> goToDetailPage d page = (d, [])"
    by (simp add: goToDetailPage_def)
  have cards: "page < 1 \<or> page > cards_totalPages c \<Longrightarrow> goToCollegesCardsPage c page = (c, [])"
    by (simp add: goToCollegesCardsPage_def)
  have shared: "page < 1 \<or> page > totalPages \<Longrightarrow> goToPage totalPages f page x = x" for f and x :: 'z
    by (auto simp: goToPage_def)
  have detail_inv: "1 \<le> detail_currentPage d \<and> detail_currentPage d \<le> detail_totalPages d \<Longrightarrow>
        1 \<le> detail_currentPage (fst (goToDetailPage d page))
        \<and> detail_currentPage (fst (goToDetailPage d page))
            \<le> detail_totalPages (fst (goToDetailPage d page))"
    by (simp add: goToDetailPage_def)
  have cards_inv: "1 \<le> cards_currentPage c \<and> cards_currentPage c \<le> cards_totalPages c \<Longrightarrow>
        1 \<le> cards_currentPage (fst (goToCollegesCardsPage c page))
        \<and> cards_currentPage (fst (goToCollegesCardsPage c page))
            \<le> cards_totalPages (fst (goToCollegesCardsPage c page))"
    by (simp add: goToCollegesCardsPage_def)
  have ann_inv: "1 \<le> ann_currentPage a \<and> ann_currentPage a \<le> totalPages \<Longrightarrow>
        1 \<le> ann_currentPage (goToPage totalPages announcements_onPageChange page a)
        \<and> ann_currentPage (goToPage totalPages announcements_onPageChange page a)
            \<le> totalPages"
    by (simp add: goToPage_def announcements_onPageChange_def loadAnnouncements_def)
  show ?thesis
    using detail cards shared [of onPageChange s] shared [of announcements_onPageChange a]
      detail_inv cards_inv ann_inv
    by blast
qed

theorem navigation_guard_witness:
  "goToDetailPage \<lparr>detail_type = Some ''students'', detail_currentPage = 3,
       detail_totalPages = 3, detail_searchTerm = ''ann''\<rparr> 4
     = (\<lparr>detail_type = Some ''students'', detail_currentPage = 3,
       detail_totalPages = 3, detail_searchTerm = ''ann''\<rparr>, [])
   \<and> goToCollegesCardsPage \<lparr>cards_currentPage = 1, cards_totalPages = 2,
       cards_searchTerm = '''', cards_colleges = ([] :: nat list)\<rparr> 4
     = (\<lparr>cards_currentPage = 1, cards_totalPages = 2,
       cards_searchTerm = '''', cards_colleges = []\<rparr>, [])
   \<and> goToPage 3 announcements_onPageChange 4 \<lparr>ann_currentPage = 3, ann_requests = []\<rparr>
     = \<lparr>ann_currentPage = 3, ann_requests = []\<rparr>
   \<and> goToPage 5 announcements_onPageChange 4 \<lparr>ann_currentPage = 5, ann_requests = []\<rparr>
     = \<lparr>ann_currentPage = 4, ann_requests = [4]\<rparr>
   \<and> fst (goToDetailPage \<lparr>detail_type = Some ''students'', detail_currentPage = 3,
       detail_totalPages = 3, detail_searchTerm = ''ann''\<rparr> 2)
     = \<lparr>detail_type = Some ''students'', detail_currentPage = 2,
       detail_totalPages = 3, detail_searchTerm = ''ann''\<rparr>"
  using navigation_guard [where page = 4
      and d = "\<lparr>detail_type = Some ''students'', detail_currentPage = 3,
         detail_totalPages = 3, detail_searchTerm = ''ann''\<rparr>"
      and c = "\<lparr>cards_currentPage = 1, cards_totalPages = 2,
         cards_searchTerm = '''', cards_colleges = ([] :: nat list)\<rparr>"
      and totalPages = 3 and onPageChange = announcements_onPageChange
      and s = "\<lparr>ann_currentPage = 3, ann_requests = []\<rparr>"
      and a = "\<lparr>ann_currentPage = 3, ann_requests = []\<rparr>"]
  by (simp add: goToDetailPage_def goToCollegesCardsPage_def goToPage_def
      announcements_onPageChange_def loadAnnouncements_def)

section \<open>Endpoint construction\<close>

lemma startsWith_single: "startsWith s [c] \<longleftrightarrow> s \<noteq> [] \<and> hd s = c"
  by (cases s) auto

lemma endsWith_single: "endsWith s [c] \<longleftrightarrow> s \<noteq> [] \<and> last s = c"
  by (cases s rule: rev_cases) (simp_all add: endsWith_def)

lemma str_includes_single: "str_includes s [c] \<longleftrightarrow> c \<in> set s"
  by (induction s) (auto simp: startsWith_single)

lemma split_on_nonempty: "split_on c s \<noteq> []"
  by (induction s) (auto split: list.splits)

lemma split_on_unfold:
  "split_on c s =
     takeWhile (\<lambda>x. x \<noteq> c) s
     # (if c \<in> set s then split_on c (tl (dropWhile (\<lambda>x. x \<noteq> c) s)) else [])"
proof (induction s)
  case Nil
  show ?case by simp
next
  case (Cons x xs)
  show ?case
  proof (cases "x = c")
    case True
    then show ?thesis by simp
  next
    case False
    then show ?thesis
      using Cons.IH by (simp split: list.splits)
  qed
qed

lemma split_on_two:
  assumes "c \<in> set s"
  shows "\<exists>ps. split_on c s =
           takeWhile (\<lambda>x. x \<noteq> c) s
           # takeWhile (\<lambda>x. x \<noteq> c) (tl (dropWhile (\<lambda>x. x \<noteq> c) s)) # ps"
proof -
  let ?rest = "tl (dropWhile (\<lambda>x. x \<noteq> c) s)"
  have "split_on c s = takeWhile (\<lambda>x. x \<noteq> c) s # split_on c ?rest"
    using assms split_on_unfold [of c s] by simp
  moreover have "\<exists>ps. split_on c ?rest = takeWhile (\<lambda>x. x \<noteq> c) ?rest # ps"
    using split_on_unfold [of c ?rest] by simp
  ultimately show ?thesis by auto
qed

lemma single_separator:
  assumes "count_list s c \<le> 1" and "c \<in> set s"
  shows "c \<notin> set (tl (dropWhile (\<lambda>x. x \<noteq> c) s))"
proof
  let ?d = "dropWhile (\<lambda>x. x \<noteq> c) s"
  assume mem: "c \<in> set (tl ?d)"
  have ne: "?d \<noteq> []" using assms(2) by (simp add: dropWhile_eq_Nil_conv)
  then have hd: "hd ?d = c" using hd_dropWhile [of "\<lambda>x. x \<noteq> c" s] by simp
  have d: "?d = c # tl ?d" using ne hd by (cases ?d) auto
  have "count_list s c = count_list (takeWhile (\<lambda>x. x \<noteq> c) s @ ?d) c" by simp
  also have "\<dots> = count_list (takeWhile (\<lambda>x. x \<noteq> c) s) c + count_list ?d c"
    by (simp only: count_list_append)
  also have "count_list ?d c = 1 + count_list (tl ?d) c"
    by (subst d) simp
  finally have "count_list (tl ?d) c = 0" using assms(1) by simp
  then show False using mem by (simp add: count_list_0_iff)
qed

lemma query_string_rebuilt:
  assumes "c \<in> set s"
  shows "c # tl (dropWhile (\<lambda>x. x \<noteq> c) s) = dropWhile (\<lambda>x. x \<noteq> c) s"
proof -
  let ?d = "dropWhile (\<lambda>x. x \<noteq> c) s"
  have ne: "?d \<noteq> []" using assms by (simp add: dropWhile_eq_Nil_conv)
  then have "hd ?d = c" using hd_dropWhile [of "\<lambda>x. x \<noteq> c" s] by simp
  then show ?thesis using ne by (cases ?d) auto
qed

text \<open>The path and query the shared \<open>buildApiEndpoint\<close> puts after the slug, for an
  endpoint without leading slash.\<close>

lemma buildApiEndpoint_general:
  "buildApiEndpoint COLLEGE_SLUG endpoint =
     (let clean = (if startsWith endpoint ''/'' then drop 1 endpoint else endpoint);
          path = takeWhile (\<lambda>x. x \<noteq> CHR ''?'') clean;
          query = (if CHR ''?'' \<in> set clean
                   then CHR ''?'' # takeWhile (\<lambda>x. x \<noteq> CHR ''?'')
                          (tl (dropWhile (\<lambda>x. x \<noteq> CHR ''?'') clean))
                   else [])
      in (if getCollegeSlug COLLEGE_SLUG \<noteq> [] then ''/api/'' @ getCollegeSlug COLLEGE_SLUG @ ''/''
          else ''/api/'')
         @ (if path \<noteq> [] \<and> last path = CHR ''/'' then path else path @ ''/'') @ query)"
proof -
  define clean where "clean = (if startsWith endpoint ''/'' then drop 1 endpoint else endpoint)"
  define path where "path = takeWhile (\<lambda>x. x \<noteq> CHR ''?'') clean"
  define rest where "rest = takeWhile (\<lambda>x. x \<noteq> CHR ''?'') (tl (dropWhile (\<lambda>x. x \<noteq> CHR ''?'') clean))"
  have parts: "(if str_includes clean ''?'' then
               (case split_on CHR ''?'' clean of
                  p0 # p1 # ps \<Rightarrow> (p0, ''?'' @ p1)
                | _ \<Rightarrow> (clean, []))
             else (clean, []))
        = (path, if CHR ''?'' \<in> set clean then CHR ''?'' # rest else [])"
  proof (cases "CHR ''?'' \<in> set clean")
    case True
    then obtain ps where "split_on CHR ''?'' clean = path # rest # ps"
      unfolding path_def rest_def using split_on_two by blast
    then show ?thesis
      using True by (simp add: str_includes_single)
  next
    case False
    then have "path = clean"
      unfolding path_def by (induction clean) auto
    then show ?thesis
      using False by (simp add: str_includes_single)
  qed
  show ?thesis
    unfolding buildApiEndpoint_def Let_def clean_def [symmetric] parts
    unfolding path_def [symmetric] rest_def [symmetric]
    by (simp add: endsWith_single API_BASE_URL_def)
qed

lemma buildApiEndpoint_two_separators:
  "buildApiEndpoint (Some ''demo'') ''a?b?c'' = ''/api/demo/a/?b''"
  by code_simp

text \<open>
  C6 (amended). With a non-empty \<open>window.COLLEGE_SLUG\<close> and an endpoint that holds at
  most one \<open>?\<close>, the shared \<open>buildApiEndpoint\<close> drops one leading slash of the endpoint
  and returns \<open>/api/<slug>/<path>/<query>\<close>: a trailing slash is appended to the path
  when absent and the query string, from \<open>?\<close> onward, follows unchanged. With an
  empty or undefined slug it returns \<open>/api/<path>/<query>\<close>. The \<open>buildApiEndpoint\<close>
  of the college admin panel returns \<open>/api/<slug>/<endpoint>\<close> with the endpoint as it
  was passed, and throws \<open>College slug not found\<close> when the slug is empty or undefined.
\<close>

theorem endpoint_construction:
  assumes "slug \<noteq> []" and "count_list endpoint CHR ''?'' \<le> 1"
  shows "buildApiEndpoint (Some slug) endpoint =
           spec_endpoint slug (if startsWith endpoint ''/'' then drop 1 endpoint else endpoint)
       \<and> buildApiEndpoint None endpoint =
           ''/api/'' @ normalised (if startsWith endpoint ''/'' then drop 1 endpoint else endpoint)
       \<and> buildApiEndpoint (Some []) endpoint = buildApiEndpoint None endpoint
       \<and> college_buildApiEndpoint (Some slug) endpoint = Inr (''/api/'' @ slug @ ''/'' @ endpoint)
       \<and> college_buildApiEndpoint None endpoint = Inl SlugNotFound
       \<and> college_buildApiEndpoint (Some []) endpoint = Inl SlugNotFound"
proof -
  define clean where "clean = (if startsWith endpoint ''/'' then drop 1 endpoint else endpoint)"
  have "count_list clean CHR ''?'' \<le> count_list endpoint CHR ''?''"
    by (cases endpoint) (simp_all add: clean_def)
  then have one: "count_list clean CHR ''?'' \<le> 1"
    using assms(2) by simp
  have query: "(if CHR ''?'' \<in> set clean
                then CHR ''?'' # takeWhile (\<lambda>x. x \<noteq> CHR ''?'')
                       (tl (dropWhile (\<lambda>x. x \<noteq> CHR ''?'') clean))
                else []) = dropWhile (\<lambda>x. x \<noteq> CHR ''?'') clean"
  proof (cases "CHR ''?'' \<in> set clean")
    case True
    have "CHR ''?'' \<notin> set (tl (dropWhile (\<lambda>x. x \<noteq> CHR ''?'') clean))"
      using one True by (rule single_separator)
    then have tw: "takeWhile (\<lambda>x. x \<noteq> CHR ''?'') (tl (dropWhile (\<lambda>x. x \<noteq> CHR ''?'') clean))
        = tl (dropWhile (\<lambda>x. x \<noteq> CHR ''?'') clean)"
      by auto
    show ?thesis
      by (simp only: True if_True tw query_string_rebuilt [OF True])
  next
    case False
    then have dw: "dropWhile (\<lambda>x. x \<noteq> CHR ''?'') clean = []"
      by (induction clean) auto
    show ?thesis
      by (simp only: False if_False dw)
  qed
  have general: "buildApiEndpoint w endpoint =
      (if getCollegeSlug w \<noteq> [] then ''/api/'' @ getCollegeSlug w @ ''/'' else ''/api/'')
      @ normalised clean" for w
    unfolding buildApiEndpoint_general Let_def clean_def [symmetric] query normalised_def
    by (rule refl)
  have shared: "buildApiEndpoint (Some slug) endpoint = spec_endpoint slug clean"
    using assms(1) by (simp add: general getCollegeSlug_def spec_endpoint_def)
  have fallback: "buildApiEndpoint None endpoint = ''/api/'' @ normalised clean"
    by (simp add: general getCollegeSlug_def)
  have same: "buildApiEndpoint (Some []) endpoint = buildApiEndpoint None endpoint"
    by (simp add: general getCollegeSlug_def)
  have college: "college_buildApiEndpoint (Some slug) endpoint = Inr (''/api/'' @ slug @ ''/'' @ endpoint)"
    using assms(1) by (simp add: college_buildApiEndpoint_def getCollegeSlug_def)
  have missing: "college_buildApiEndpoint None endpoint = Inl SlugNotFound"
    "college_buildApiEndpoint (Some []) endpoint = Inl SlugNotFound"
    by (simp_all add: college_buildApiEndpoint_def getCollegeSlug_def)
  show ?thesis
    using shared fallback same college missing unfolding clean_def by simp
qed

theorem endpoint_construction_witness:
  "''demo'' \<noteq> [] \<and> count_list ''/students?page=2&search=ann'' CHR ''?'' \<le> 1
   \<and> buildApiEndpoint (Some ''demo'') ''/students?page=2&search=ann''
       = ''/api/demo/students/?page=2&search=ann''
   \<and> buildApiEndpoint None ''/students?page=2&search=ann'' = ''/api/students/?page=2&search=ann''
   \<and> college_buildApiEndpoint (Some ''demo'') ''/students?page=2&search=ann''
       = Inr ''/api/demo//students?page=2&search=ann''"
proof -
  have n: "normalised ''students?page=2&search=ann'' = ''students/?page=2&search=ann''"
    by (simp add: normalised_def)
  show ?thesis
    using endpoint_construction [of "''demo''" "''/students?page=2&search=ann''"] n
    by (simp add: spec_endpoint_def)
qed

theorem endpoint_construction_counterexample:
  "college_buildApiEndpoint (Some ''demo'') ''students'' = Inr ''/api/demo/students''
   \<and> spec_endpoint ''demo'' ''students'' = ''/api/demo/students/''
   \<and> buildApiEndpoint None ''students'' = ''/api/students/''
   \<and> spec_endpoint (getCollegeSlug None) ''students'' = ''/api//students/''"
  by (simp add: college_buildApiEndpoint_def getCollegeSlug_def spec_endpoint_def
      normalised_def buildApiEndpoint_def endsWith_def API_BASE_URL_def)

section \<open>API clients\<close>

lemma catch_toast_Return: "catch_toast (Return v, fx) = (Return v, fx)"
  by (simp add: catch_toast_def)

lemma catch_toast_Throw:
  "catch_toast (Throw e, fx) = (Throw e, fx\<lparr>toasts := toasts fx @ [(''error'', e)]\<rparr>)"
  by (simp add: catch_toast_def)

lemma college_apiCall_response:
  assumes "slug \<noteq> []"
  shows "college_apiCall parse (\<lambda>url. Response r) (Some slug) endpoint fx =
    catch_toast (college_response parse r
      (fx\<lparr>fetches := fetches fx @ [''/api/'' @ slug @ ''/'' @ endpoint]\<rparr>))"
  using assms
  by (simp add: college_apiCall_def college_buildApiEndpoint_def getCollegeSlug_def)

lemma superadmin_apiCall_response:
  "superadmin_apiCall parse (\<lambda>url. Response r) endpoint fx =
    catch_toast (json_response parse r
      (fx\<lparr>fetches := fetches fx
         @ [''/api/superadmin'' @ (if startsWith endpoint ''/'' then endpoint else ''/'' @ endpoint)]\<rparr>))"
  by (simp add: superadmin_apiCall_def Let_def)

text \<open>
  The client of the college admin panel does what C2 asks: on 401 and on 403 it
  redirects, returns \<open>null\<close>, shows no toast and does not hand the body to the parser.
\<close>

lemma college_auth_redirect:
  assumes "slug \<noteq> []" and "status r = 401 \<or> status r = 403"
  shows "college_apiCall parse (\<lambda>url. Response r) (Some slug) endpoint fx =
    (Return Null, fx\<lparr>fetches := fetches fx @ [''/api/'' @ slug @ ''/'' @ endpoint],
                      location := Some ''/admin/login/''\<rparr>)"
proof -
  have "status r \<noteq> 204" using assms(2) by auto
  then have "college_response parse r f = (Return Null, f\<lparr>location := Some ''/admin/login/''\<rparr>)" for f
    using assms(2) by (simp add: college_response_def)
  then show ?thesis
    by (simp add: college_apiCall_response [OF assms(1)] catch_toast_Return)
qed

text \<open>
  C2 at the failing inputs. The super-admin client looks at the content type and parses
  the body before it looks at the status. A 403 whose content type is not JSON is thrown
  as a generic HTTP error and shown in a toast, with no redirect; a 403 with a JSON
  content type is redirected only after \<open>response.json()\<close> has parsed the body, and
  when the body does not parse the client throws and shows a toast instead.
\<close>

theorem superadmin_forbidden:
  "superadmin_apiCall parse
     (\<lambda>url. Response \<lparr>status = 403, statusText = ''Forbidden'',
                       contentType = Some ''text/html'', body = ''<h1>403 Forbidden</h1>''\<rparr>)
     ''/colleges/'' no_effects
   = (Throw (HttpError 403 ''Forbidden''),
      \<lparr>fetches = [''/api/superadmin/colleges/''], location = None,
       toasts = [(''error'', HttpError 403 ''Forbidden'')], json_parses = 0\<rparr>)
   \<and> json_parses (snd (superadmin_apiCall parse
        (\<lambda>url. Response \<lparr>status = 403, statusText = ''Forbidden'',
                          contentType = Some ''application/json'', body = b\<rparr>)
        ''/colleges/'' no_effects)) = 1
   \<and> superadmin_apiCall (\<lambda>s. None)
        (\<lambda>url. Response \<lparr>status = 403, statusText = ''Forbidden'',
                          contentType = Some ''application/json'', body = ''''\<rparr>)
        ''/colleges/'' no_effects
      = (Throw SyntaxError,
         \<lparr>fetches = [''/api/superadmin/colleges/''], location = None,
          toasts = [(''error'', SyntaxError)], json_parses = 1\<rparr>)"
proof -
  have html: "not_json \<lparr>status = 403, statusText = ''Forbidden'',
      contentType = Some ''text/html'', body = ''<h1>403 Forbidden</h1>''\<rparr>"
    by (simp add: not_json_def)
  have js: "\<not> not_json \<lparr>status = 403, statusText = ''Forbidden'',
      contentType = Some ''application/json'', body = x\<rparr>" for x
    by (simp add: not_json_def)
  have first: "superadmin_apiCall parse
     (\<lambda>url. Response \<lparr>status = 403, statusText = ''Forbidden'',
                       contentType = Some ''text/html'', body = ''<h1>403 Forbidden</h1>''\<rparr>)
     ''/colleges/'' no_effects
   = (Throw (HttpError 403 ''Forbidden''),
      \<lparr>fetches = [''/api/superadmin/colleges/''], location = None,
       toasts = [(''error'', HttpError 403 ''Forbidden'')], json_parses = 0\<rparr>)"
    unfolding superadmin_apiCall_response
    by (simp add: json_response_def html response_ok_def catch_toast_def no_effects_def)
  have second: "json_parses (snd (superadmin_apiCall parse
        (\<lambda>url. Response \<lparr>status = 403, statusText = ''Forbidden'',
                          contentType = Some ''application/json'', body = b\<rparr>)
        ''/colleges/'' no_effects)) = 1"
    unfolding superadmin_apiCall_response
    by (cases "parse b")
      (simp_all add: json_response_def js response_ok_def catch_toast_def no_effects_def)
  have third: "superadmin_apiCall (\<lambda>s. None)
        (\<lambda>url. Response \<lparr>status = 403, statusText = ''Forbidden'',
                          contentType = Some ''application/json'', body = ''''\<rparr>)
        ''/colleges/'' no_effects
      = (Throw SyntaxError,
         \<lparr>fetches = [''/api/superadmin/colleges/''], location = None,
          toasts = [(''error'', SyntaxError)], json_parses = 1\<rparr>)"
    unfolding superadmin_apiCall_response
    by (simp add: json_response_def js response_ok_def catch_toast_def no_effects_def)
  show ?thesis
    using first second third by simp
qed

text \<open>
  C5 (amended). For every response whose body is empty or is not valid JSON, the client
  of the college admin panel returns without throwing if the status is 2xx
  (\<open>{success: true}\<close>, or \<open>null\<close> when the content type is not JSON and the status is
  not 204), redirects to the login page and returns \<open>null\<close> if the status is 401 or
  403, and throws an Error, shown in a toast, for every other status. The super-admin
  client, for a response whose content type is not JSON and whose status is neither 401
  nor 403, returns \<open>null\<close> if the status is 2xx and throws an Error otherwise.
\<close>

theorem unparsable_body:
  assumes "slug \<noteq> []" and "body r = [] \<or> parse (body r) = None"
  shows "(status r = 401 \<or> status r = 403 \<longrightarrow>
            college_apiCall parse (\<lambda>url. Response r) (Some slug) endpoint fx =
              (Return Null, fx\<lparr>fetches := fetches fx @ [''/api/'' @ slug @ ''/'' @ endpoint],
                                location := Some ''/admin/login/''\<rparr>))
       \<and> (status r \<noteq> 401 \<and> status r \<noteq> 403 \<and> response_ok r \<longrightarrow>
            fst (college_apiCall parse (\<lambda>url. Response r) (Some slug) endpoint fx) =
              Return (if not_json r \<and> status r \<noteq> 204 then Null else Success)
            \<and> toasts (snd (college_apiCall parse (\<lambda>url. Response r) (Some slug) endpoint fx))
                = toasts fx)
       \<and> (status r \<noteq> 401 \<and> status r \<noteq> 403 \<and> \<not> response_ok r \<longrightarrow>
            (\<exists>e. fst (college_apiCall parse (\<lambda>url. Response r) (Some slug) endpoint fx) = Throw e
               \<and> toasts (snd (college_apiCall parse (\<lambda>url. Response r) (Some slug) endpoint fx))
                   = toasts fx @ [(''error'', e)]))
       \<and> (status r \<noteq> 401 \<and> status r \<noteq> 403 \<and> not_json r \<longrightarrow>
            fst (superadmin_apiCall parse (\<lambda>url. Response r) endpoint fx) =
              (if response_ok r then Return Null else Throw (HttpError (status r) (statusText r))))"
proof -
  let ?fx = "fx\<lparr>fetches := fetches fx @ [''/api/'' @ slug @ ''/'' @ endpoint]\<rparr>"
  have call: "college_apiCall parse (\<lambda>url. Response r) (Some slug) endpoint fx =
      catch_toast (college_response parse r ?fx)"
    using assms(1) by (rule college_apiCall_response)
  have auth: "status r = 401 \<or> status r = 403 \<Longrightarrow>
      college_apiCall parse (\<lambda>url. Response r) (Some slug) endpoint fx =
        (Return Null, ?fx\<lparr>location := Some ''/admin/login/''\<rparr>)"
    using assms(1) by (rule college_auth_redirect)
  have ok204: "status r = 204 \<Longrightarrow> response_ok r"
    by (simp add: response_ok_def)
  have good: "status r \<noteq> 401 \<and> status r \<noteq> 403 \<and> response_ok r \<Longrightarrow>
      catch_toast (college_response parse r ?fx) =
        (Return (if not_json r \<and> status r \<noteq> 204 then Null else Success),
         if not_json r \<or> status r = 204 \<or> body r = [] then ?fx
         else ?fx\<lparr>json_parses := json_parses fx + 1\<rparr>)"
    using assms(2)
    by (auto simp: college_response_def catch_toast_def Let_def)
  have bad: "status r \<noteq> 401 \<and> status r \<noteq> 403 \<and> \<not> response_ok r \<Longrightarrow>
      \<exists>e. fst (catch_toast (college_response parse r ?fx)) = Throw e
        \<and> toasts (snd (catch_toast (college_response parse r ?fx))) = toasts fx @ [(''error'', e)]"
    using assms(2) ok204
    by (auto simp: college_response_def catch_toast_def Let_def)
  have super: "status r \<noteq> 401 \<and> status r \<noteq> 403 \<and> not_json r \<Longrightarrow>
      fst (superadmin_apiCall parse (\<lambda>url. Response r) endpoint fx) =
        (if response_ok r then Return Null else Throw (HttpError (status r) (statusText r)))"
    by (simp add: superadmin_apiCall_response json_response_def catch_toast_def)
  show ?thesis
    using auth good bad super unfolding call by simp
qed

theorem unparsable_body_witness:
  "''demo'' \<noteq> []
   \<and> body \<lparr>status = 500, statusText = ''Server Error'',
            contentType = Some ''application/json'', body = ''''\<rparr> = []
   \<and> college_apiCall (\<lambda>s. None)
        (\<lambda>url. Response \<lparr>status = 500, statusText = ''Server Error'',
                          contentType = Some ''application/json'', body = ''''\<rparr>)
        (Some ''demo'') ''students/'' no_effects
      = (Throw (EmptyResponse ''Server Error''),
         \<lparr>fetches = [''/api/demo/students/''], location = None,
          toasts = [(''error'', EmptyResponse ''Server Error'')], json_parses = 0\<rparr>)
   \<and> college_apiCall (\<lambda>s. None)
        (\<lambda>url. Response \<lparr>status = 200, statusText = ''OK'',
                          contentType = Some ''application/json'', body = ''<html>''\<rparr>)
        (Some ''demo'') ''students/'' no_effects
      = (Return Success,
         \<lparr>fetches = [''/api/demo/students/''], location = None, toasts = [],
          json_parses = 1\<rparr>)"
proof -
  have a: "fst (college_apiCall (\<lambda>s. None)
        (\<lambda>url. Response \<lparr>status = 200, statusText = ''OK'',
                          contentType = Some ''application/json'', body = ''<html>''\<rparr>)
        (Some ''demo'') ''students/'' no_effects) = Return Success"
    using unparsable_body [of "''demo''"
        "\<lparr>status = 200, statusText = ''OK'',
          contentType = Some ''application/json'', body = ''<html>''\<rparr>"
        "\<lambda>s. None" "''students/''" no_effects]
    by (simp add: response_ok_def not_json_def)
  have b: "college_apiCall (\<lambda>s. None)
        (\<lambda>url. Response \<lparr>status = 200, statusText = ''OK'',
                          contentType = Some ''application/json'', body = ''<html>''\<rparr>)
        (Some ''demo'') ''students/'' no_effects
      = (Return Success,
         \<lparr>fetches = [''/api/demo/students/''], location = None, toasts = [],
          json_parses = 1\<rparr>)"
    by (simp add: college_apiCall_def college_buildApiEndpoint_def getCollegeSlug_def
        college_response_def not_json_def response_ok_def catch_toast_def no_effects_def)
  have c: "college_apiCall (\<lambda>s. None)
        (\<lambda>url. Response \<lparr>status = 500, statusText = ''Server Error'',
                          contentType = Some ''application/json'', body = ''''\<rparr>)
        (Some ''demo'') ''students/'' no_effects
      = (Throw (EmptyResponse ''Server Error''),
         \<lparr>fetches = [''/api/demo/students/''], location = None,
          toasts = [(''error'', EmptyResponse ''Server Error'')], json_parses = 0\<rparr>)"
    by (simp add: college_apiCall_def college_buildApiEndpoint_def getCollegeSlug_def
        college_response_def not_json_def response_ok_def catch_toast_def no_effects_def)
  show ?thesis
    using a b c by simp
qed

theorem unparsable_body_counterexample:
  "college_apiCall (\<lambda>s. None)
     (\<lambda>url. Response \<lparr>status = 403, statusText = ''Forbidden'',
                       contentType = Some ''application/json'', body = ''''\<rparr>)
     (Some ''demo'') ''students/'' no_effects
   = (Return Null,
      \<lparr>fetches = [''/api/demo/students/''], location = Some ''/admin/login/'',
       toasts = [], json_parses = 0\<rparr>)
   \<and> \<not> response_ok \<lparr>status = 403, statusText = ''Forbidden'',
                     contentType = Some ''application/json'', body = ''''\<rparr>"
  by (simp add: college_apiCall_def college_buildApiEndpoint_def getCollegeSlug_def
      college_response_def response_ok_def catch_toast_def no_effects_def)

section \<open>Form validation\<close>

lemma trim_empty: "trim [] = []"
  by (simp add: trim_def)

lemma fst_check_field: "fst (check_field failed fieldId message st) = (fst st \<and> \<not> failed)"
  by (cases st) (simp add: check_field_def)







lemma validateCollegeForm_valid:
  "fst (validateCollegeForm data d) \<longleftrightarrow>
     trim (f_name data) \<noteq> [] \<and> trim (f_owner_name data) \<noteq> []
     \<and> trim (f_owner_email data) \<noteq> [] \<and> isValidEmail (f_owner_email data)
     \<and> trim (f_owner_phone data) \<noteq> [] \<and> trim (f_location data) \<noteq> [] \<and> f_type data \<noteq> []"
  unfolding validateCollegeForm_def fst_check_field by auto















text \<open>A complete college form is sent: the guard is the only thing between the submit
  and the API client. A name that consists of a no-break space (U+00A0) is blank.\<close>

lemma demo_values:
  "isValidEmail (units ''ann@example.org'')"
  "trim (units ''Hill College'') \<noteq> []"
  "trim (units ''Ann Lee'') \<noteq> []"
  "trim (units ''ann@example.org'') \<noteq> []"
  "trim (units ''0700 000 000'') \<noteq> []"
  "trim (units ''Nairobi'') \<noteq> []"
  "units ''TVET'' \<noteq> []"
  by (simp_all add: units_def isValidEmail_def trim_def is_space_def)

lemma complete_college_form_is_sent:
  "api_calls (handleCollegeSubmit
      (demo_dashboard\<lparr>form_inputs := demo_college_form\<lparr>f_name := units ''Hill College''\<rparr>\<rparr>))
     = [(''POST'', ''/colleges/'')]"
proof -
  have valid: "fst (validateCollegeForm (demo_college_form\<lparr>f_name := units ''Hill College''\<rparr>) d)" for d
    unfolding validateCollegeForm_valid
    by (simp add: demo_college_form_def demo_values)
  show ?thesis
    using valid
    by (simp add: handleCollegeSubmit_def Let_def split_beta demo_dashboard_def)
qed

lemma no_break_space_is_blank:
  "trim [0xA0] = []"
  "api_calls (handleCollegeSubmit
      (demo_dashboard\<lparr>form_inputs := demo_college_form\<lparr>f_name := [0xA0]\<rparr>\<rparr>)) = []"
proof -
  show blank: "trim [0xA0] = []"
    by (simp add: trim_def is_space_def)
  have "\<not> fst (validateCollegeForm (demo_college_form\<lparr>f_name := [0xA0]\<rparr>) d)" for d
    unfolding validateCollegeForm_valid using blank by simp
  then show "api_calls (handleCollegeSubmit
      (demo_dashboard\<lparr>form_inputs := demo_college_form\<lparr>f_name := [0xA0]\<rparr>\<rparr>)) = []"
    by (simp add: handleCollegeSubmit_def Let_def split_beta demo_dashboard_def)
qed

section \<open>Modals\<close>

lemma reset_controls:
  "map entered (controls (reset form)) = map initial (controls form)"
  "map initial (controls (reset form)) = map initial (controls form)"
  "map control_name (controls (reset form)) = map control_name (controls form)"
  "nodes (reset form) = nodes form"
  by (simp_all add: reset_def comp_def)

lemma common_clearFormErrors_nodes:
  "list_all (\<lambda>el. if error_message el then textContent el = [] \<and> display el = ''none'' else True)
     (nodes (common_clearFormErrors form))"
  "controls (common_clearFormErrors form) = controls form"
  by (auto simp: common_clearFormErrors_def list_all_iff)

lemma clearFormErrors_cleared:
  "clearFormErrors d k = Some el \<Longrightarrow> error_message el \<Longrightarrow> textContent el = []"
  by (auto simp: clearFormErrors_def split: option.splits if_splits)

text \<open>
  C9 (amended). Closing a modal through the shared \<open>closeModal(modalId)\<close> or through the
  \<open>closeModal()\<close> of the super-admin dashboard resets the form and clears every
  per-field error text: the modal loses the class \<open>active\<close>, every control of the form
  is back at the value of the markup (empty where the markup gives none), whatever was
  entered, and every \<open>.error-message\<close> element (of the form, respectively of the page)
  is empty; a form whose controls and error elements were overwritten in any way before
  the close is, after the close, the same as the form that was not.
  \<open>closeDetailModal\<close> sets the type to \<open>null\<close>, the page to 1 and the search term to
  the empty string. Other state survives a close: \<open>detailModalData.totalPages\<close> and
  \<open>form.dataset.collegeId\<close> of the college form are left as they are; the deny modal is
  closed by taking the class \<open>active\<close> from it and nothing else, so the reason entered
  stays; and the \<open>closeModal(modalId)\<close> of the college admin panel resets the form and
  \<open>form.dataset.editId\<close> but leaves the text of every element in the form.
\<close>

theorem close_resets_modal:
  assumes "document modalId = Some m" and "modal_form m = Some form"
  shows "(\<exists>form'. closeModal modalId document modalId
                   = Some \<lparr>active = False, modal_form = Some form'\<rparr>
            \<and> map entered (controls form') = map initial (controls form)
            \<and> list_all (\<lambda>el. if error_message el
                               then textContent el = [] \<and> display el = ''none'' else True)
                 (nodes form')
            \<and> closeModal modalId
                 (document(modalId \<mapsto> m\<lparr>modal_form := Some
                    (form\<lparr>controls := map (\<lambda>c. c\<lparr>entered := typed c\<rparr>) (controls form),
                          nodes := map (\<lambda>el. if error_message el
                                               then el\<lparr>textContent := shown_text el,
                                                      display := shown_display el\<rparr>
                                               else el) (nodes form)\<rparr>)\<rparr>)) modalId
                = closeModal modalId document modalId)
       \<and> modal_active (superadmin_closeModal p) = False
       \<and> form_inputs (superadmin_closeModal p) = form_defaults p
       \<and> superadmin_closeModal (p\<lparr>form_inputs := any_inputs\<rparr>) = superadmin_closeModal p
       \<and> (\<forall>k \<in> dom (elements (superadmin_closeModal p)).
             \<forall>el. elements (superadmin_closeModal p) k = Some el \<and> error_message el
                  \<longrightarrow> textContent el = [])
       \<and> closeDetailModal (Some a) d
           = (Some False, d\<lparr>detail_type := None, detail_currentPage := 1, detail_searchTerm := []\<rparr>)
       \<and> detail_totalPages (snd (closeDetailModal (Some a) d)) = detail_totalPages d
       \<and> form_collegeId (superadmin_closeModal p) = form_collegeId p
       \<and> deny_dismiss dm = dm\<lparr>deny_active := False\<rparr>
       \<and> handleDenySubmit dm =
           dm\<lparr>deny_toasts := deny_toasts dm @ [(''info'', ''Registration denied'')],
              deny_active := False\<rparr>
       \<and> (panel_document panelId = Some pm \<and> panel_form pm = Some pf \<longrightarrow>
            panel_closeModal panelId panel_document panelId =
              Some \<lparr>panel_active = False,
                    panel_form = Some (pf\<lparr>controls :=
                      map (\<lambda>c. c\<lparr>entered := initial c\<rparr>) (controls pf)\<rparr>),
                    panel_editId = Some []\<rparr>)"
proof -
  let ?after = "common_clearFormErrors (reset form)"
  let ?edited = "form\<lparr>controls := map (\<lambda>c. c\<lparr>entered := typed c\<rparr>) (controls form),
      nodes := map (\<lambda>el. if error_message el
                           then el\<lparr>textContent := shown_text el, display := shown_display el\<rparr>
                           else el) (nodes form)\<rparr>"
  have closed: "closeModal modalId document modalId
      = Some \<lparr>active = False, modal_form = Some ?after\<rparr>"
    using assms by (cases m) (simp add: closeModal_def)
  have entered_reset: "map entered (controls ?after) = map initial (controls form)"
    by (simp add: common_clearFormErrors_nodes(2) reset_controls(1))
  have texts: "list_all (\<lambda>el. if error_message el
      then textContent el = [] \<and> display el = ''none'' else True) (nodes ?after)"
    by (rule common_clearFormErrors_nodes(1))
  have same_form: "common_clearFormErrors (reset ?edited) = ?after"
    by (simp add: common_clearFormErrors_def reset_def comp_def if_distrib cong: if_cong)
  have same: "closeModal modalId (document(modalId \<mapsto> m\<lparr>modal_form := Some ?edited\<rparr>)) modalId
      = closeModal modalId document modalId"
    unfolding closed using same_form by (cases m) (simp add: closeModal_def)
  have dash: "modal_active (superadmin_closeModal p) = False"
    "form_inputs (superadmin_closeModal p) = form_defaults p"
    "elements (superadmin_closeModal p) = clearFormErrors (elements p)"
    "superadmin_closeModal (p\<lparr>form_inputs := any_inputs\<rparr>) = superadmin_closeModal p"
    "form_collegeId (superadmin_closeModal p) = form_collegeId p"
    by (simp_all add: superadmin_closeModal_def)
  have errors: "\<forall>k \<in> dom (elements (superadmin_closeModal p)).
      \<forall>el. elements (superadmin_closeModal p) k = Some el \<and> error_message el
           \<longrightarrow> textContent el = []"
    unfolding dash(3) using clearFormErrors_cleared by blast
  have detail: "closeDetailModal (Some a) d
      = (Some False, d\<lparr>detail_type := None, detail_currentPage := 1, detail_searchTerm := []\<rparr>)"
    "detail_totalPages (snd (closeDetailModal (Some a) d)) = detail_totalPages d"
    by (simp_all add: closeDetailModal_def)
  have deny: "deny_dismiss dm = dm\<lparr>deny_active := False\<rparr>"
    "handleDenySubmit dm =
       dm\<lparr>deny_toasts := deny_toasts dm @ [(''info'', ''Registration denied'')],
          deny_active := False\<rparr>"
    by (simp_all add: deny_dismiss_def handleDenySubmit_def)
  have panel: "panel_document panelId = Some pm \<and> panel_form pm = Some pf \<longrightarrow>
      panel_closeModal panelId panel_document panelId =
        Some \<lparr>panel_active = False,
              panel_form = Some (pf\<lparr>controls :=
                map (\<lambda>c. c\<lparr>entered := initial c\<rparr>) (controls pf)\<rparr>),
              panel_editId = Some []\<rparr>"
    by (cases pm) (simp add: panel_closeModal_def reset_def)
  have first: "\<exists>form'. closeModal modalId document modalId
                   = Some \<lparr>active = False, modal_form = Some form'\<rparr>
            \<and> map entered (controls form') = map initial (controls form)
            \<and> list_all (\<lambda>el. if error_message el
                               then textContent el = [] \<and> display el = ''none'' else True)
                 (nodes form')
            \<and> closeModal modalId (document(modalId \<mapsto> m\<lparr>modal_form := Some ?edited\<rparr>)) modalId
                = closeModal modalId document modalId"
    using closed entered_reset texts same by (intro exI [of _ ?after] conjI)
  show ?thesis
    using first dash(1,2,4,5) errors detail deny panel by (intro conjI)
qed

theorem close_resets_modal_witness:
  "demo_document ''announcement-modal'' = Some \<lparr>active = True, modal_form = Some demo_form\<rparr>
   \<and> closeModal ''announcement-modal'' demo_document ''announcement-modal''
       = Some \<lparr>active = False, modal_form = Some
           \<lparr>controls = [\<lparr>control_name = ''title'', entered = [], initial = []\<rparr>,
                        \<lparr>control_name = ''priority'', entered = ''normal'', initial = ''normal''\<rparr>],
            nodes = [\<lparr>textContent = [], display = ''none'', error_message = True\<rparr>]\<rparr>\<rparr>
   \<and> modal_active (superadmin_closeModal demo_dashboard) = False
   \<and> form_inputs (superadmin_closeModal demo_dashboard) = form_defaults demo_dashboard
   \<and> closeDetailModal (Some True)
        \<lparr>detail_type = Some ''students'', detail_currentPage = 3, detail_totalPages = 4,
         detail_searchTerm = ''ann''\<rparr>
       = (Some False,
          \<lparr>detail_type = None, detail_currentPage = 1, detail_totalPages = 4,
           detail_searchTerm = []\<rparr>)
   \<and> panel_closeModal ''student-modal'' demo_panel_document ''student-modal''
       = Some \<lparr>panel_active = False, panel_form = Some
           \<lparr>controls = [\<lparr>control_name = ''title'', entered = [], initial = []\<rparr>,
                        \<lparr>control_name = ''priority'', entered = ''normal'', initial = ''normal''\<rparr>],
            nodes = [\<lparr>textContent = ''Title is required'', display = ''block'',
                      error_message = True\<rparr>]\<rparr>,
           panel_editId = Some []\<rparr>"
proof -
  have a: "demo_document ''announcement-modal'' = Some \<lparr>active = True, modal_form = Some demo_form\<rparr>"
    by (simp add: demo_document_def)
  have b: "closeModal ''announcement-modal'' demo_document ''announcement-modal''
       = Some \<lparr>active = False, modal_form = Some
           \<lparr>controls = [\<lparr>control_name = ''title'', entered = [], initial = []\<rparr>,
                        \<lparr>control_name = ''priority'', entered = ''normal'', initial = ''normal''\<rparr>],
            nodes = [\<lparr>textContent = [], display = ''none'', error_message = True\<rparr>]\<rparr>\<rparr>"
    by (simp add: closeModal_def demo_document_def demo_form_def reset_def
        common_clearFormErrors_def)
  have c: "demo_panel_document ''student-modal''
      = Some \<lparr>panel_active = True, panel_form = Some demo_form, panel_editId = Some ''12''\<rparr>"
    by (simp add: demo_panel_document_def)
  note closed = close_resets_modal [where document = demo_document
        and modalId = "''announcement-modal''"
        and m = "\<lparr>active = True, modal_form = Some demo_form\<rparr>"
        and form = demo_form and p = demo_dashboard and a = True
        and d = "\<lparr>detail_type = Some ''students'', detail_currentPage = 3, detail_totalPages = 4,
          detail_searchTerm = ''ann''\<rparr>"
        and panel_document = demo_panel_document and panelId = "''student-modal''"
        and pm = "\<lparr>panel_active = True, panel_form = Some demo_form, panel_editId = Some ''12''\<rparr>"
        and pf = demo_form and dm = demo_deny_modal and any_inputs = "form_inputs demo_dashboard"
        and typed = entered and shown_text = textContent and shown_display = display, OF a]
  have shared: "modal_active (superadmin_closeModal demo_dashboard) = False
     \<and> form_inputs (superadmin_closeModal demo_dashboard) = form_defaults demo_dashboard
     \<and> closeDetailModal (Some True)
        \<lparr>detail_type = Some ''students'', detail_currentPage = 3, detail_totalPages = 4,
         detail_searchTerm = ''ann''\<rparr>
       = (Some False,
          \<lparr>detail_type = None, detail_currentPage = 1, detail_totalPages = 4,
           detail_searchTerm = []\<rparr>)"
    using closed by simp
  have panel: "panel_closeModal ''student-modal'' demo_panel_document ''student-modal''
       = Some \<lparr>panel_active = False, panel_form = Some
           \<lparr>controls = [\<lparr>control_name = ''title'', entered = [], initial = []\<rparr>,
                        \<lparr>control_name = ''priority'', entered = ''normal'', initial = ''normal''\<rparr>],
            nodes = [\<lparr>textContent = ''Title is required'', display = ''block'',
                      error_message = True\<rparr>]\<rparr>,
           panel_editId = Some []\<rparr>"
    using closed c by (simp add: demo_form_def)
  show ?thesis
    using a b shared panel by simp
qed

text \<open>
  What survives a close: the reason typed into the deny modal, the error text in a form
  of the college admin panel, a control whose markup gives it a value (it is reset, not
  emptied), the number of pages of the detail modal and the id of the college being
  edited.
\<close>

theorem close_resets_modal_counterexample:
  "deny_dismiss demo_deny_modal =
     \<lparr>deny_active = False,
      deny_reason = \<lparr>control_name = ''deny-reason'', entered = ''Duplicate entry'', initial = []\<rparr>,
      deny_toasts = []\<rparr>
   \<and> panel_closeModal ''student-modal'' demo_panel_document ''student-modal''
       = Some \<lparr>panel_active = False, panel_form = Some
           \<lparr>controls = [\<lparr>control_name = ''title'', entered = [], initial = []\<rparr>,
                        \<lparr>control_name = ''priority'', entered = ''normal'', initial = ''normal''\<rparr>],
            nodes = [\<lparr>textContent = ''Title is required'', display = ''block'',
                      error_message = True\<rparr>]\<rparr>,
           panel_editId = Some []\<rparr>
   \<and> snd (closeDetailModal (Some True)
        \<lparr>detail_type = Some ''students'', detail_currentPage = 3, detail_totalPages = 4,
         detail_searchTerm = ''ann''\<rparr>)
       = \<lparr>detail_type = None, detail_currentPage = 1, detail_totalPages = 4,
          detail_searchTerm = []\<rparr>
   \<and> form_collegeId (superadmin_closeModal (demo_dashboard\<lparr>form_collegeId := Some ''7''\<rparr>))
       = Some ''7''"
  by (simp add: deny_dismiss_def demo_deny_modal_def panel_closeModal_def
      demo_panel_document_def demo_form_def reset_def closeDetailModal_def
      superadmin_closeModal_def)

section \<open>Debounced search\<close>






section \<open>The results fetcher\<close>

lemma in_step_step: "in_step m \<Longrightarrow> in_step (step m h)"
proof (cases h)
  case (Call page search filters)
  assume "in_step m"
  then show ?thesis
    by (auto simp: Call in_step_def fetchResults_def)
next
  case (Settle outcome)
  assume "in_step m"
  then show ?thesis
    by (cases "awaited m"; cases outcome)
      (auto simp: Settle in_step_def fetchResults_resume_def Let_def)
next
  case (SwitchTab on)
  assume "in_step m"
  then show ?thesis
    by (simp add: SwitchTab in_step_def)
qed

lemma in_step_foldl: "in_step m \<Longrightarrow> in_step (foldl step m hs)"
  by (induction hs arbitrary: m) (simp_all add: in_step_step)

lemma in_step_loaded: "in_step (module_loaded on)"
  by (simp add: in_step_def module_loaded_def)

text \<open>
  C8. While a results fetch is in progress (the flag is set) every further call of
  \<open>fetchResults\<close> returns without a request and without a change of state; whatever
  happens on the page after the module is loaded, at most one call is awaited, and the
  flag is set exactly while one is; when the awaited call settles, with a response or
  with an error, the flag and the loading indicator are cleared.
\<close>

theorem single_results_fetch:
  fixes m :: "('r, 'f) results_module" and hs :: "('r, 'f) happening list"
  shows "(isFetchingResults m \<longrightarrow> fetchResults page search filters m = m)
       \<and> length (awaited (foldl step (module_loaded on) hs)) \<le> 1
       \<and> (isFetchingResults (foldl step (module_loaded on) hs)
            \<longleftrightarrow> awaited (foldl step (module_loaded on) hs) \<noteq> [])
       \<and> (awaited m \<noteq> [] \<longrightarrow>
            \<not> isFetchingResults (fetchResults_resume outcome m)
            \<and> \<not> results_loading (fetchResults_resume outcome m)
            \<and> awaited (fetchResults_resume outcome m) = tl (awaited m))"
proof -
  have skip: "isFetchingResults m \<Longrightarrow> fetchResults page search filters m = m"
    by (simp add: fetchResults_def)
  have "in_step (foldl step (module_loaded on) hs)"
    using in_step_loaded by (rule in_step_foldl)
  then have one: "length (awaited (foldl step (module_loaded on) hs)) \<le> 1"
    and flag: "isFetchingResults (foldl step (module_loaded on) hs)
      \<longleftrightarrow> awaited (foldl step (module_loaded on) hs) \<noteq> []"
    by (simp_all add: in_step_def)
  have cleared: "awaited m \<noteq> [] \<Longrightarrow>
      \<not> isFetchingResults (fetchResults_resume outcome m)
      \<and> \<not> results_loading (fetchResults_resume outcome m)
      \<and> awaited (fetchResults_resume outcome m) = tl (awaited m)"
    by (cases "awaited m"; cases outcome) (simp_all add: fetchResults_resume_def Let_def)
  show ?thesis
    using skip one flag cleared by blast
qed

theorem single_results_fetch_witness:
  "foldl step (module_loaded True :: (nat, unit) results_module)
     [Call 1 [] (), Call 2 [] (), Settle Failed, Call 3 ''ann'' ()]
   = \<lparr>isFetchingResults = True, results_loading = True, results_data = [],
      results_currentPage = 1, results_totalPages = 1, tab_active = True,
      awaited = [(3, ''ann'', ())], requested = [(1, [], ()), (3, ''ann'', ())]\<rparr>
   \<and> foldl step (module_loaded True :: (nat, unit) results_module)
       [Call 1 [] (), Settle (Envelope (Some [7, 8]) (Some 1) (Some 4) False)]
     = \<lparr>isFetchingResults = False, results_loading = False, results_data = [7, 8],
        results_currentPage = 1, results_totalPages = 4, tab_active = True,
        awaited = [], requested = [(1, [], ())]\<rparr>
   \<and> fetchResults 2 [] ()
       (foldl step (module_loaded True :: (nat, unit) results_module) [Call 1 [] ()])
     = foldl step (module_loaded True) [Call 1 [] ()]"
proof -
  let ?m = "foldl step (module_loaded True :: (nat, unit) results_module) [Call 1 [] ()]"
  have busy: "isFetchingResults ?m"
    by (simp add: module_loaded_def fetchResults_def)
  have runs: "foldl step (module_loaded True :: (nat, unit) results_module)
     [Call 1 [] (), Call 2 [] (), Settle Failed, Call 3 ''ann'' ()]
   = \<lparr>isFetchingResults = True, results_loading = True, results_data = [],
      results_currentPage = 1, results_totalPages = 1, tab_active = True,
      awaited = [(3, ''ann'', ())], requested = [(1, [], ()), (3, ''ann'', ())]\<rparr>"
    "foldl step (module_loaded True :: (nat, unit) results_module)
       [Call 1 [] (), Settle (Envelope (Some [7, 8]) (Some 1) (Some 4) False)]
     = \<lparr>isFetchingResults = False, results_loading = False, results_data = [7, 8],
        results_currentPage = 1, results_totalPages = 4, tab_active = True,
        awaited = [], requested = [(1, [], ())]\<rparr>"
    by (simp_all add: module_loaded_def fetchResults_def fetchResults_resume_def or_one_def)
  show ?thesis
    using single_results_fetch [of ?m 2 "[]" "()"] busy runs by simp
qed

end
